theory Spec2Isabelle
  imports Complex_Main
begin

section \<open>The IaC structure validator (scripts/validate_structure.py)\<close>

text \<open>
  A shallow embedding of \<^verbatim>\<open>IaCValidator\<close> and \<^verbatim>\<open>main\<close>. The validator reads a
  directory tree and appends \<^verbatim>\<open>ValidationResult\<close> objects to a list; here every check is
  a function from the validator state to the new state, in the order of the source.

  Scope of the model. Text is a list of characters and the character classes of the
  patterns (\<^verbatim>\<open>\s\<close>, \<^verbatim>\<open>\d\<close>, \<^verbatim>\<open>\b\<close>, case folding) are the ASCII ones. The tree under
  the root path holds readable regular files only: a file is its path relative to the
  root (components joined by \<^verbatim>\<open>/\<close>) and its text as \<^verbatim>\<open>read_text\<close> returns it; the order of
  the list is the order in which \<^verbatim>\<open>glob\<close> enumerates. Reading a discovered file and
  writing the report are taken to succeed. Console output and the rendering of the
  markdown report are left out; the numbers of the report's summary are kept.
\<close>

subsection \<open>Python string operations\<close>

definition is_space :: "char \<Rightarrow> bool" where
  "is_space c = (c \<in> set [CHR 0x09, CHR 0x0A, CHR 0x0B, CHR 0x0C, CHR 0x0D,
                           CHR 0x1C, CHR 0x1D, CHR 0x1E, CHR 0x1F, CHR 0x20])"

definition is_digit :: "char \<Rightarrow> bool" where
  "is_digit c = (c \<in> set ''0123456789'')"

definition is_upper :: "char \<Rightarrow> bool" where
  "is_upper c = (c \<in> set ''ABCDEFGHIJKLMNOPQRSTUVWXYZ'')"

definition is_word :: "char \<Rightarrow> bool" where
  "is_word c = (c \<in> set ''abcdefghijklmnopqrstuvwxyzABCDEFGHIJKLMNOPQRSTUVWXYZ0123456789_'')"

definition lower_char :: "char \<Rightarrow> char" where
  "lower_char c =
     (case map_of (zip ''ABCDEFGHIJKLMNOPQRSTUVWXYZ'' ''abcdefghijklmnopqrstuvwxyz'') c of
        Some l \<Rightarrow> l
      | None \<Rightarrow> c)"

text \<open>\<^verbatim>\<open>s.lower()\<close>\<close>

definition lower :: "string \<Rightarrow> string" where
  "lower s = map lower_char s"

text \<open>\<^verbatim>\<open>s.startswith(x)\<close> and \<^verbatim>\<open>x in s\<close>\<close>

fun startswith :: "string \<Rightarrow> string \<Rightarrow> bool" where
  "startswith s [] = True"
| "startswith [] (x # xs) = False"
| "startswith (c # cs) (x # xs) = (c = x \<and> startswith cs xs)"

fun str_in :: "string \<Rightarrow> string \<Rightarrow> bool" where
  "str_in x [] = (x = [])"
| "str_in x (c # cs) = (startswith (c # cs) x \<or> str_in x cs)"

text \<open>\<^verbatim>\<open>s.find(x)\<close>: the index of the first occurrence, \<open>-1\<close> when there is none.\<close>

fun find_str :: "string \<Rightarrow> string \<Rightarrow> int" where
  "find_str [] x = (if x = [] then 0 else - 1)"
| "find_str (c # cs) x =
     (if startswith (c # cs) x then 0
      else (let r = find_str cs x in if r < 0 then - 1 else r + 1))"

text \<open>\<^verbatim>\<open>s[a:b]\<close> for \<open>0 \<le> a\<close>; a negative \<open>b\<close> counts from the end.\<close>

definition slice :: "string \<Rightarrow> int \<Rightarrow> int \<Rightarrow> string" where
  "slice s a b =
     (let n = int (length s);
          b' = (if b < 0 then max 0 (n + b) else min b n)
      in drop (nat a) (take (nat b') s))"

text \<open>\<^verbatim>\<open>s.strip()\<close>\<close>

definition strip :: "string \<Rightarrow> string" where
  "strip s = rev (dropWhile is_space (rev (dropWhile is_space s)))"

text \<open>\<^verbatim>\<open>s.split('\n')\<close>\<close>

fun split_lines :: "string \<Rightarrow> string list" where
  "split_lines [] = [[]]"
| "split_lines (c # cs) =
     (if c = CHR 0x0A then [] # split_lines cs
      else (case split_lines cs of
              [] \<Rightarrow> [[c]]
            | l # ls \<Rightarrow> (c # l) # ls))"

text \<open>\<^verbatim>\<open>enumerate(xs, i)\<close>\<close>

fun enumerate_from :: "int \<Rightarrow> 'a list \<Rightarrow> (int \<times> 'a) list" where
  "enumerate_from i [] = []"
| "enumerate_from i (x # xs) = (i, x) # enumerate_from (i + 1) xs"

subsection \<open>The fragment of Python's \<^verbatim>\<open>re\<close> that the validator uses\<close>

text \<open>
  Every quantifier of the validator's patterns is applied to a single character class,
  so \<open>Star\<close> (greedy) and \<open>Lazy\<close> (\<^verbatim>\<open>*?\<close>) take a class. \<open>Grp\<close> is capturing group 1,
  \<open>Wordb\<close> is \<^verbatim>\<open>\b\<close>, \<open>Bol\<close> is \<^verbatim>\<open>^\<close> under \<^verbatim>\<open>re.MULTILINE\<close>.
\<close>

datatype rx =
    Sat "char \<Rightarrow> bool"
  | Eps
  | Seq rx rx
  | Alt rx rx
  | Star "char \<Rightarrow> bool"
  | Lazy "char \<Rightarrow> bool"
  | Grp rx
  | Wordb
  | Bol

text \<open>
  The state of a match attempt: the character before the current position (for the
  assertions), the text from the current position on, and the text of group 1.
\<close>

type_synonym mstate = "char option \<times> string \<times> string option"

text \<open>
  What is left to match is a stack of frames: a pattern, or the end of group 1 together
  with the text at which the group was entered.
\<close>

datatype frame = Do rx | End_group string

fun weight :: "frame \<Rightarrow> nat" where
  "weight (Do r) = 2 * size r + 1"
| "weight (End_group s0) = 1"

text \<open>
  A backtracking matcher: alternatives are tried in the order in which \<^verbatim>\<open>re\<close> tries
  them (left alternative first, longest repetition first for a greedy quantifier,
  shortest first for a lazy one), and the first complete match wins.
\<close>

function mtch :: "frame list \<Rightarrow> char option \<Rightarrow> string \<Rightarrow> string option \<Rightarrow> mstate option" where
  "mtch [] p s g = Some (p, s, g)"
| "mtch (End_group s0 # k) p s g = mtch k p s (Some (take (length s0 - length s) s0))"
| "mtch (Do (Sat P) # k) p s g =
     (case s of [] \<Rightarrow> None | c # cs \<Rightarrow> if P c then mtch k (Some c) cs g else None)"
| "mtch (Do Eps # k) p s g = mtch k p s g"
| "mtch (Do (Seq a b) # k) p s g = mtch (Do a # Do b # k) p s g"
| "mtch (Do (Alt a b) # k) p s g =
     (case mtch (Do a # k) p s g of Some r \<Rightarrow> Some r | None \<Rightarrow> mtch (Do b # k) p s g)"
| "mtch (Do (Star P) # k) p s g =
     (case s of
        [] \<Rightarrow> mtch k p s g
      | c # cs \<Rightarrow>
          if P c
          then (case mtch (Do (Star P) # k) (Some c) cs g of
                  Some r \<Rightarrow> Some r
                | None \<Rightarrow> mtch k p s g)
          else mtch k p s g)"
| "mtch (Do (Lazy P) # k) p s g =
     (case mtch k p s g of
        Some r \<Rightarrow> Some r
      | None \<Rightarrow>
          (case s of
             [] \<Rightarrow> None
           | c # cs \<Rightarrow> if P c then mtch (Do (Lazy P) # k) (Some c) cs g else None))"
| "mtch (Do (Grp a) # k) p s g = mtch (Do a # End_group s # k) p s g"
| "mtch (Do Wordb # k) p s g =
     (if (case p of None \<Rightarrow> False | Some c \<Rightarrow> is_word c)
           \<noteq> (case s of [] \<Rightarrow> False | c # cs \<Rightarrow> is_word c)
      then mtch k p s g else None)"
| "mtch (Do Bol # k) p s g =
     (if p = None \<or> p = Some (CHR 0x0A) then mtch k p s g else None)"
  by pat_completeness auto
termination
  by (relation "measures [\<lambda>(k, p, s, g). sum_list (map weight k), \<lambda>(k, p, s, g). length s]")
    auto

text \<open>A match object: \<^verbatim>\<open>m.group()\<close> and \<^verbatim>\<open>m.group(1)\<close>.\<close>

record rmatch =
  group0 :: string
  group1 :: "string option"

text \<open>A match that starts exactly at the current position.\<close>

definition match_here :: "rx \<Rightarrow> char option \<Rightarrow> string \<Rightarrow> (rmatch \<times> char option \<times> string) option" where
  "match_here r p s =
     (case mtch [Do r] p s None of
        None \<Rightarrow> None
      | Some (p', s', g') \<Rightarrow>
          Some (\<lparr>group0 = take (length s - length s') s, group1 = g'\<rparr>, p', s'))"

text \<open>\<^verbatim>\<open>re.search\<close>: the leftmost start position at which the pattern matches.\<close>

fun search_from :: "rx \<Rightarrow> char option \<Rightarrow> string \<Rightarrow> rmatch option" where
  "search_from r p s =
     (case match_here r p s of
        Some (m, _, _) \<Rightarrow> Some m
      | None \<Rightarrow> (case s of [] \<Rightarrow> None | c # cs \<Rightarrow> search_from r (Some c) cs))"

definition search :: "rx \<Rightarrow> string \<Rightarrow> rmatch option" where
  "search r s = search_from r None s"

text \<open>
  \<^verbatim>\<open>re.finditer\<close>: the non-overlapping matches from left to right; the scan resumes
  where the previous match ended. None of the validator's patterns matches the empty
  string; after an empty match the scan here moves on by one character.
\<close>

fun finditer_from :: "rx \<Rightarrow> char option \<Rightarrow> string \<Rightarrow> rmatch list" where
  "finditer_from r p s =
     (case match_here r p s of
        Some (m, p', s') \<Rightarrow>
          if length s' < length s then m # finditer_from r p' s'
          else m # (case s of [] \<Rightarrow> [] | c # cs \<Rightarrow> finditer_from r (Some c) cs)
      | None \<Rightarrow> (case s of [] \<Rightarrow> [] | c # cs \<Rightarrow> finditer_from r (Some c) cs))"

definition finditer :: "rx \<Rightarrow> string \<Rightarrow> rmatch list" where
  "finditer r s = finditer_from r None s"

text \<open>\<^verbatim>\<open>re.findall\<close> for a pattern with one group: the texts of group 1.\<close>

definition findall :: "rx \<Rightarrow> string \<Rightarrow> string list" where
  "findall r s = map (\<lambda>m. case group1 m of None \<Rightarrow> [] | Some t \<Rightarrow> t) (finditer r s)"

subsection \<open>Building patterns\<close>

definition seqs :: "rx list \<Rightarrow> rx" where
  "seqs rs = foldr Seq rs Eps"

text \<open>A literal text, and a literal text under \<^verbatim>\<open>re.IGNORECASE\<close> (written in lower case).\<close>

definition lit :: "string \<Rightarrow> rx" where
  "lit t = seqs (map (\<lambda>c. Sat ((=) c)) t)"

definition same_letter :: "char \<Rightarrow> char \<Rightarrow> bool" where
  "same_letter c x = (lower_char x = c)"

definition ilit :: "string \<Rightarrow> rx" where
  "ilit t = seqs (map (\<lambda>c. Sat (same_letter c)) t)"

text \<open>\<^verbatim>\<open>c+\<close> for a class \<open>c\<close>, \<^verbatim>\<open>[^"]\<close> and \<^verbatim>\<open>.\<close> under \<^verbatim>\<open>re.DOTALL\<close>.\<close>

definition rx_plus :: "(char \<Rightarrow> bool) \<Rightarrow> rx" where
  "rx_plus P = Seq (Sat P) (Star P)"

definition not_quote :: "char \<Rightarrow> bool" where
  "not_quote c = (c \<noteq> CHR 0x22)"

definition not_dollar :: "char \<Rightarrow> bool" where
  "not_dollar c = (c \<noteq> CHR ''$'')"

definition any_char :: "char \<Rightarrow> bool" where
  "any_char c = True"

subsection \<open>The result model and the validator state\<close>

record ValidationResult =
  check_name :: string
  passed :: bool
  message :: string
  file_path :: string
  line_number :: int

text \<open>
  A tree: the files under the root path, each with its relative path and its text.
  \<open>tf_files\<close> holds the discovered files together with the text that \<^verbatim>\<open>read_text\<close>
  returns for them (the tree does not change during a run).
\<close>

type_synonym tree = "(string \<times> string) list"

record IaCValidator =
  path :: string
  strict :: bool
  results :: "ValidationResult list"
  tf_files :: "(string \<times> string) list"

text \<open>\<^verbatim>\<open>IaCValidator.__init__\<close>\<close>

definition init :: "string \<Rightarrow> bool \<Rightarrow> IaCValidator" where
  "init p s = \<lparr>path = p, strict = s, results = [], tf_files = []\<rparr>"

text \<open>\<^verbatim>\<open>self.results.append(ValidationResult(...))\<close>\<close>

definition append_result :: "string \<Rightarrow> bool \<Rightarrow> string \<Rightarrow> string \<Rightarrow> int \<Rightarrow> IaCValidator \<Rightarrow> IaCValidator" where
  "append_result cn ok msg fp lnum v =
     v\<lparr>results := results v @
          [\<lparr>check_name = cn, passed = ok, message = msg, file_path = fp, line_number = lnum\<rparr>]\<rparr>"

text \<open>\<^verbatim>\<open>(self.path / name).exists()\<close> and \<^verbatim>\<open>(self.path / name).read_text()\<close>\<close>

definition exists_file :: "tree \<Rightarrow> string \<Rightarrow> bool" where
  "exists_file fs n = (map_of fs n \<noteq> None)"

text \<open>\<^verbatim>\<open>tf_file.name\<close>: the last component of a path.\<close>

definition name_of :: "string \<Rightarrow> string" where
  "name_of p = rev (takeWhile (\<lambda>c. c \<noteq> CHR ''/'') (rev p))"

definition endswith :: "string \<Rightarrow> string \<Rightarrow> bool" where
  "endswith s x = (length x \<le> length s \<and> drop (length s - length x) s = x)"

text \<open>\<^verbatim>\<open>self.path.glob("**/*.tf")\<close>\<close>

definition glob_tf :: "tree \<Rightarrow> (string \<times> string) list" where
  "glob_tf fs = filter (\<lambda>(p, c). endswith (name_of p) ''.tf'') fs"

text \<open>
  What a run can end with besides a result. \<open>ZeroDivisionError\<close> is the Python exception.
  \<open>Interpolated_pattern n\<close> marks the edge of the model: the validator pastes a variable
  name \<open>n\<close> into a pattern without escaping it, and a name with a metacharacter of
  \<^verbatim>\<open>re\<close> makes a pattern that is not the literal name (or does not compile).
\<close>

datatype error = ZeroDivisionError | Interpolated_pattern string

subsection \<open>\<^verbatim>\<open>check_file_structure\<close>\<close>

definition required_files :: "(string \<times> string) list" where
  "required_files =
     [(''README.md'', ''Project documentation''),
      (''variables.tf'', ''Variable declarations''),
      (''outputs.tf'', ''Output definitions''),
      (''versions.tf'', ''Provider versions (or provider.tf)''),
      (''.gitignore'', ''Git exclusions'')]"

definition required_file_step :: "tree \<Rightarrow> string \<times> string \<Rightarrow> IaCValidator \<Rightarrow> IaCValidator" where
  "required_file_step fs fd v =
     (let filename = fst fd; description = snd fd;
          file_exists = exists_file fs filename;
          file_exists = (if filename = ''versions.tf'' \<and> \<not> file_exists
                         then exists_file fs ''provider.tf'' else file_exists)
      in append_result (''Required File: '' @ filename) file_exists
           (description @ '' '' @ (if file_exists then ''found'' else ''MISSING'')) [] 0 v)"

definition check_file_structure :: "tree \<Rightarrow> IaCValidator \<Rightarrow> IaCValidator" where
  "check_file_structure fs v =
     (let v = fold (required_file_step fs) required_files v;
          constants_file = exists_file fs ''locals_constants.tf''
      in append_result ''Constants File'' constants_file
           (if constants_file then ''locals_constants.tf found''
            else ''locals_constants.tf MISSING - magic numbers may be present'') [] 0 v)"

subsection \<open>\<^verbatim>\<open>check_magic_numbers\<close>\<close>

text \<open>
  \<^verbatim>\<open>\bport\s*=\s*(\d+)\<close>, \<^verbatim>\<open>\bzone\s*=\s*"(\d+)"\<close>, \<^verbatim>\<open>168\.63\.129\.16\<close>,
  \<^verbatim>\<open>\bdisk_size_gb\s*=\s*(\d+)\<close>
\<close>

definition magic_patterns :: "(rx \<times> string) list" where
  "magic_patterns =
     [(seqs [Wordb, lit ''port'', Star is_space, lit ''='', Star is_space, Grp (rx_plus is_digit)],
       ''Port number''),
      (seqs [Wordb, lit ''zone'', Star is_space, lit ''='', Star is_space,
             lit ''\"'', Grp (rx_plus is_digit), lit ''\"''],
       ''Availability zone''),
      (lit ''168.63.129.16'', ''Azure Wire Server IP''),
      (seqs [Wordb, lit ''disk_size_gb'', Star is_space, lit ''='', Star is_space,
             Grp (rx_plus is_digit)],
       ''Disk size'')]"

definition magic_match_step :: "string \<Rightarrow> int \<Rightarrow> string \<Rightarrow> string \<Rightarrow> rmatch \<Rightarrow> IaCValidator \<Rightarrow> IaCValidator" where
  "magic_match_step rel i line description m v =
     (if str_in ''local.'' line then v
      else append_result ''Magic Number'' False
             (description @ '' hardcoded: '' @ group0 m @ '' - Should be in locals_constants.tf'')
             rel i v)"

definition magic_pattern_step :: "string \<Rightarrow> int \<Rightarrow> string \<Rightarrow> rx \<times> string \<Rightarrow> IaCValidator \<Rightarrow> IaCValidator" where
  "magic_pattern_step rel i line pd v =
     fold (magic_match_step rel i line (snd pd)) (finditer (fst pd) line) v"

definition magic_line_step :: "string \<Rightarrow> int \<times> string \<Rightarrow> IaCValidator \<Rightarrow> IaCValidator" where
  "magic_line_step rel il v =
     (if startswith (strip (snd il)) ''#'' then v
      else fold (magic_pattern_step rel (fst il) (snd il)) magic_patterns v)"

definition magic_file_step :: "string \<times> string \<Rightarrow> IaCValidator \<Rightarrow> IaCValidator" where
  "magic_file_step tf v =
     (if name_of (fst tf) = ''locals_constants.tf'' then v
      else fold (magic_line_step (fst tf)) (enumerate_from 1 (split_lines (snd tf))) v)"

definition check_magic_numbers :: "tree \<Rightarrow> IaCValidator \<Rightarrow> IaCValidator" where
  "check_magic_numbers fs v = fold magic_file_step (tf_files v) v"

text \<open>
  The matches of all the patterns on one line, each with the label of its pattern, in
  the order in which the two inner loops visit them.
\<close>

definition magic_matches :: "string \<Rightarrow> (string \<times> rmatch) list" where
  "magic_matches line =
     concat (map (\<lambda>pd. map (Pair (snd pd)) (finditer (fst pd) line)) magic_patterns)"

subsection \<open>\<^verbatim>\<open>check_string_booleans\<close>\<close>

text \<open>
  \<^verbatim>\<open>contains\(\s*\[\s*"yes"\s*,\s*"no"\s*\]\<close> and the same with \<^verbatim>\<open>"true"\<close>, \<^verbatim>\<open>"false"\<close>
\<close>

definition contains_pair_rx :: "string \<Rightarrow> string \<Rightarrow> rx" where
  "contains_pair_rx a b =
     seqs [lit ''contains('', Star is_space, lit ''['', Star is_space,
           lit (''\"'' @ a @ ''\"''), Star is_space, lit '','', Star is_space,
           lit (''\"'' @ b @ ''\"''), Star is_space, lit '']'']"

definition string_boolean_line_step :: "string \<Rightarrow> int \<times> string \<Rightarrow> IaCValidator \<Rightarrow> IaCValidator" where
  "string_boolean_line_step rel il v =
     (let v = (if search (contains_pair_rx ''yes'' ''no'') (snd il) \<noteq> None
               then append_result ''String Boolean'' False
                      ''String boolean detected - Use type = bool instead of \"yes\"/\"no\"''
                      rel (fst il) v
               else v)
      in if search (contains_pair_rx ''true'' ''false'') (snd il) \<noteq> None
         then append_result ''String Boolean'' False
                ''String boolean detected - Use type = bool instead of \"true\"/\"false\" strings''
                rel (fst il) v
         else v)"

definition string_boolean_file_step :: "string \<times> string \<Rightarrow> IaCValidator \<Rightarrow> IaCValidator" where
  "string_boolean_file_step tf v =
     fold (string_boolean_line_step (fst tf)) (enumerate_from 1 (split_lines (snd tf))) v"

definition check_string_booleans :: "IaCValidator \<Rightarrow> IaCValidator" where
  "check_string_booleans v = fold string_boolean_file_step (tf_files v) v"

subsection \<open>\<^verbatim>\<open>check_naming_conventions\<close>\<close>

text \<open>\<^verbatim>\<open>variable\s+"([^"]+)"\<close>, \<^verbatim>\<open>resource\s+"[^"]+"\s+"([^"]+)"\<close> and \<^verbatim>\<open>[A-Z]\<close>\<close>

definition var_pattern :: rx where
  "var_pattern = seqs [lit ''variable'', rx_plus is_space, lit ''\"'', Grp (rx_plus not_quote), lit ''\"'']"

definition resource_pattern :: rx where
  "resource_pattern =
     seqs [lit ''resource'', rx_plus is_space, lit ''\"'', rx_plus not_quote, lit ''\"'',
           rx_plus is_space, lit ''\"'', Grp (rx_plus not_quote), lit ''\"'']"

definition variable_name_step :: "string \<Rightarrow> string \<Rightarrow> IaCValidator \<Rightarrow> IaCValidator" where
  "variable_name_step rel var_name v =
     (let v = (if search (Sat is_upper) var_name \<noteq> None
               then append_result ''Variable Naming'' False
                      (''Variable \"'' @ var_name @ ''\" not in snake_case'') rel 0 v
               else v)
      in if length var_name < 3
         then append_result ''Variable Naming'' False
                (''Variable \"'' @ var_name @ ''\" too short (< 3 chars)'') rel 0 v
         else v)"

definition variable_naming_file_step :: "string \<times> string \<Rightarrow> IaCValidator \<Rightarrow> IaCValidator" where
  "variable_naming_file_step tf v =
     (if name_of (fst tf) \<noteq> ''variables.tf'' then v
      else fold (variable_name_step (fst tf)) (findall var_pattern (snd tf)) v)"

definition resource_name_step :: "string \<Rightarrow> string \<Rightarrow> IaCValidator \<Rightarrow> IaCValidator" where
  "resource_name_step rel res_name v =
     (if search (Sat is_upper) res_name \<noteq> None
      then append_result ''Resource Naming'' False
             (''Resource \"'' @ res_name @ ''\" not in snake_case'') rel 0 v
      else v)"

definition resource_naming_file_step :: "string \<times> string \<Rightarrow> IaCValidator \<Rightarrow> IaCValidator" where
  "resource_naming_file_step tf v =
     fold (resource_name_step (fst tf)) (findall resource_pattern (snd tf)) v"

definition check_naming_conventions :: "IaCValidator \<Rightarrow> IaCValidator" where
  "check_naming_conventions v =
     (let v = fold variable_naming_file_step (tf_files v) v
      in fold resource_naming_file_step (tf_files v) v)"

subsection \<open>\<^verbatim>\<open>check_documentation\<close>\<close>

definition required_sections :: "(string \<times> string) list" where
  "required_sections =
     [(''prerequisites'', ''Prerequisites section''),
      (''quick start'', ''Quick Start or Getting Started section''),
      (''configuration'', ''Configuration section'')]"

definition section_step :: "string \<Rightarrow> string \<times> string \<Rightarrow> IaCValidator \<Rightarrow> IaCValidator" where
  "section_step content kd v =
     (let keyword = fst kd; description = snd kd;
          found = str_in keyword content
      in append_result (''README: '' @ description) found
           (description @ '' '' @ (if found then ''found'' else ''MISSING in README.md'')) [] 0 v)"

definition check_documentation :: "tree \<Rightarrow> IaCValidator \<Rightarrow> IaCValidator" where
  "check_documentation fs v =
     (case map_of fs ''README.md'' of
        None \<Rightarrow> append_result ''README.md'' False ''README.md not found'' [] 0 v
      | Some body \<Rightarrow>
          (let content = lower body;
               v = fold (section_step content) required_sections v;
               example_exists = exists_file fs ''terraform.tfvars.example''
           in append_result ''Example Configuration'' example_exists
                (''terraform.tfvars.example '' @ (if example_exists then ''found'' else ''MISSING''))
                [] 0 v))"

subsection \<open>\<^verbatim>\<open>check_security_standards\<close>\<close>

text \<open>
  \<^verbatim>\<open>(password|secret|key)\s*=\s*"[^$]\<close> under \<^verbatim>\<open>re.IGNORECASE\<close>, and \<^verbatim>\<open>var\.|data\.\<close>
\<close>

definition secret_words :: rx where
  "secret_words = Alt (ilit ''password'') (Alt (ilit ''secret'') (ilit ''key''))"

definition secret_rx :: rx where
  "secret_rx =
     seqs [Grp secret_words, Star is_space, lit ''='', Star is_space, lit ''\"'',
           Sat not_dollar]"

definition reference_rx :: rx where
  "reference_rx = Alt (lit ''var.'') (lit ''data.'')"

definition security_line_step :: "string \<Rightarrow> string \<Rightarrow> int \<times> string \<Rightarrow> IaCValidator \<Rightarrow> IaCValidator" where
  "security_line_step rel content il v =
     (let i = fst il; line = snd il;
          v = (if search secret_rx line \<noteq> None
               then (if search reference_rx line = None
                     then append_result ''Hardcoded Secret'' False
                            ''Possible hardcoded secret detected - Use variables or Key Vault''
                            rel i v
                     else v)
               else v)
      in if str_in ''source_address_prefix'' line \<and> str_in ''\"*\"'' line
         then (if str_in ''allow''
                    (lower (slice content (max 0 (find_str content line - 200))
                                          (find_str content line)))
               then append_result ''Overly Permissive Security Rule'' False
                      ''Security rule allows traffic from anywhere (*) - Use specific CIDR blocks''
                      rel i v
               else v)
         else v)"

definition security_file_step :: "string \<times> string \<Rightarrow> IaCValidator \<Rightarrow> IaCValidator" where
  "security_file_step tf v =
     fold (security_line_step (fst tf) (snd tf)) (enumerate_from 1 (split_lines (snd tf))) v"

text \<open>
  \<^verbatim>\<open>variable\s+"([^"]*(?:password|secret|key)[^"]*)".*?}\<close> under
  \<^verbatim>\<open>re.DOTALL | re.IGNORECASE\<close>
\<close>

definition sensitive_vars_rx :: rx where
  "sensitive_vars_rx =
     seqs [ilit ''variable'', rx_plus is_space, lit ''\"'',
           Grp (seqs [Star not_quote, secret_words, Star not_quote]),
           lit ''\"'', Lazy any_char, lit ''}'']"

text \<open>
  \<^verbatim>\<open>rf'variable\s+"{var_name}".*?}}'\<close> under \<^verbatim>\<open>re.DOTALL\<close>. The name is pasted into the
  pattern as it is; the model follows the pattern when it is the literal name, that is
  when the name has none of the special characters of \<^verbatim>\<open>re\<close>.
\<close>

definition plain_name :: "string \<Rightarrow> bool" where
  "plain_name n = list_all (\<lambda>c. c \<notin> set ''.^$*+?{}[]|()'' \<and> c \<noteq> CHR 0x5C) n"

definition block_rx :: "string \<Rightarrow> rx" where
  "block_rx var_name =
     seqs [lit ''variable'', rx_plus is_space, lit ''\"'', lit var_name, lit ''\"'',
           Lazy any_char, lit ''}'']"

definition block_pattern :: "string \<Rightarrow> error + rx" where
  "block_pattern var_name =
     (if plain_name var_name then Inr (block_rx var_name)
      else Inl (Interpolated_pattern var_name))"

text \<open>
  The block of a variable as both checks take it: the text of the first match of the
  pattern above, from the header through the first closing brace after it.
\<close>

definition var_block :: "string \<Rightarrow> string \<Rightarrow> string option" where
  "var_block content var_name = map_option group0 (search (block_rx var_name) content)"

text \<open>A loop whose body can stop the run.\<close>

fun fold_err :: "('a \<Rightarrow> 's \<Rightarrow> error + 's) \<Rightarrow> 'a list \<Rightarrow> 's \<Rightarrow> error + 's" where
  "fold_err f [] v = Inr v"
| "fold_err f (x # xs) v = (case f x v of Inl e \<Rightarrow> Inl e | Inr v' \<Rightarrow> fold_err f xs v')"

definition sensitive_var_step :: "string \<Rightarrow> string \<Rightarrow> IaCValidator \<Rightarrow> error + IaCValidator" where
  "sensitive_var_step content var_name v =
     (case block_pattern var_name of
        Inl e \<Rightarrow> Inl e
      | Inr r \<Rightarrow>
          (case search r content of
             None \<Rightarrow> Inr v
           | Some var_block_match \<Rightarrow>
               (let var_block = group0 var_block_match;
                    has_sensitive = (str_in ''sensitive'' var_block \<and> str_in ''true'' var_block)
                in Inr (append_result ''Sensitive Variable'' has_sensitive
                          (''Variable \"'' @ var_name @ ''\" ''
                             @ (if has_sensitive then ''is'' else ''NOT'') @ '' marked sensitive'')
                          [] 0 v))))"

definition check_security_standards :: "tree \<Rightarrow> IaCValidator \<Rightarrow> error + IaCValidator" where
  "check_security_standards fs v =
     (let v = fold security_file_step (tf_files v) v
      in case map_of fs ''variables.tf'' of
           None \<Rightarrow> Inr v
         | Some content \<Rightarrow>
             fold_err (sensitive_var_step content) (findall sensitive_vars_rx content) v)"

subsection \<open>\<^verbatim>\<open>check_variable_validation\<close>\<close>

text \<open>\<^verbatim>\<open>variable\s+"([^"]+)".*?}\<close> under \<^verbatim>\<open>re.DOTALL\<close>, and \<^verbatim>\<open>default\s*=\<close>\<close>

definition var_blocks_rx :: rx where
  "var_blocks_rx =
     seqs [lit ''variable'', rx_plus is_space, lit ''\"'', Grp (rx_plus not_quote), lit ''\"'',
           Lazy any_char, lit ''}'']"

definition default_rx :: rx where
  "default_rx = seqs [lit ''default'', Star is_space, lit ''='']"

definition variable_validation_step :: "string \<Rightarrow> string \<Rightarrow> IaCValidator \<Rightarrow> error + IaCValidator" where
  "variable_validation_step content var_name v =
     (case block_pattern var_name of
        Inl e \<Rightarrow> Inl e
      | Inr r \<Rightarrow>
          (case search r content of
             None \<Rightarrow> Inr v
           | Some var_match \<Rightarrow>
               (let var_block = group0 var_match;
                    has_validation = str_in ''validation'' var_block;
                    has_default = (search default_rx var_block \<noteq> None)
                in if \<not> has_default \<and> \<not> has_validation
                   then Inr (append_result ''Variable Validation'' False
                               (''Required variable \"'' @ var_name @ ''\" lacks validation block'')
                               ''variables.tf'' 0 v)
                   else Inr v)))"

definition check_variable_validation :: "tree \<Rightarrow> IaCValidator \<Rightarrow> error + IaCValidator" where
  "check_variable_validation fs v =
     (case map_of fs ''variables.tf'' of
        None \<Rightarrow> Inr v
      | Some content \<Rightarrow>
          fold_err (variable_validation_step content) (findall var_blocks_rx content) v)"

subsection \<open>\<^verbatim>\<open>check_output_organization\<close>\<close>

text \<open>\<^verbatim>\<open>^\s*output\s+"\<close> under \<^verbatim>\<open>re.MULTILINE\<close>\<close>

definition output_rx :: rx where
  "output_rx = seqs [Bol, Star is_space, lit ''output'', rx_plus is_space, lit ''\"'']"

definition output_file_step :: "string \<times> string \<Rightarrow> IaCValidator \<Rightarrow> IaCValidator" where
  "output_file_step tf v =
     (if name_of (fst tf) = ''outputs.tf'' then v
      else if search output_rx (snd tf) \<noteq> None
      then append_result ''Output Organization'' False
             (''Output found in '' @ name_of (fst tf) @ '' - should be in outputs.tf'')
             (fst tf) 0 v
      else v)"

definition check_output_organization :: "tree \<Rightarrow> IaCValidator \<Rightarrow> IaCValidator" where
  "check_output_organization fs v =
     (if \<not> exists_file fs ''outputs.tf''
      then append_result ''Output Organization'' False
             ''outputs.tf not found - outputs may be scattered'' [] 0 v
      else fold output_file_step (tf_files v) v)"

subsection \<open>\<^verbatim>\<open>run_all_checks\<close>, \<^verbatim>\<open>generate_report\<close> and \<^verbatim>\<open>main\<close>\<close>

text \<open>The counts of the console summary: total, passed, failed.\<close>

definition summary :: "IaCValidator \<Rightarrow> int \<times> int \<times> int" where
  "summary v =
     (let total = int (length (results v));
          passed_count = int (length (filter passed (results v)))
      in (total, passed_count, total - passed_count))"

definition run_all_checks :: "tree \<Rightarrow> IaCValidator \<Rightarrow> error + (bool \<times> IaCValidator)" where
  "run_all_checks fs v0 =
     (let v = v0\<lparr>tf_files := glob_tf fs\<rparr>
      in if tf_files v = []
         then Inr (False, append_result ''File Discovery'' False
                            (''No Terraform files found in '' @ path v) [] 0 v)
         else
           (let v = check_file_structure fs v;
                v = check_magic_numbers fs v;
                v = check_string_booleans v;
                v = check_naming_conventions v;
                v = check_documentation fs v
            in case check_security_standards fs v of
                 Inl e \<Rightarrow> Inl e
               | Inr v \<Rightarrow>
                   (case check_variable_validation fs v of
                      Inl e \<Rightarrow> Inl e
                    | Inr v \<Rightarrow>
                        (let v = check_output_organization fs v;
                             failed = snd (snd (summary v))
                         in Inr (failed = 0, v)))))"

text \<open>
  The summary block of the report. The pass rate is \<^verbatim>\<open>passed / len(self.results) * 100\<close>,
  kept here as an exact fraction; the division raises when there is no result.
\<close>

record report_summary =
  total_checks :: int
  passed_checks :: int
  failed_checks :: int
  pass_rate :: rat

definition generate_report :: "IaCValidator \<Rightarrow> error + report_summary" where
  "generate_report v =
     (let passed_count = int (length (filter passed (results v)));
          failed_count = int (length (filter (\<lambda>r. \<not> passed r) (results v)));
          total = int (length (results v))
      in if total = 0 then Inl ZeroDivisionError
         else Inr \<lparr>total_checks = total, passed_checks = passed_count,
                   failed_checks = failed_count,
                   pass_rate = of_int passed_count / of_int total * 100\<rparr>)"

text \<open>
  The command line: \<^verbatim>\<open>--path\<close>, \<^verbatim>\<open>--strict\<close>, \<^verbatim>\<open>--report\<close>. The first argument of \<open>main\<close>
  is what the file system holds at the path: \<open>None\<close> when the path does not exist.
  A Python exception inside the \<^verbatim>\<open>try\<close> gives exit code 2.
\<close>

record args =
  arg_path :: string
  arg_strict :: bool
  arg_report :: "string option"

definition exit_code :: "bool \<Rightarrow> int" where
  "exit_code all_passed = (if all_passed then 0 else 1)"

definition main :: "tree option \<Rightarrow> args \<Rightarrow> error + int" where
  "main at_path a =
     (case at_path of
        None \<Rightarrow> Inr 2
      | Some fs \<Rightarrow>
          (case run_all_checks fs (init (arg_path a) (arg_strict a)) of
             Inl ZeroDivisionError \<Rightarrow> Inr 2
           | Inl (Interpolated_pattern n) \<Rightarrow> Inl (Interpolated_pattern n)
           | Inr (all_passed, validator) \<Rightarrow>
               (case arg_report a of
                  None \<Rightarrow> Inr (exit_code all_passed)
                | Some report_path \<Rightarrow>
                    (case generate_report validator of
                       Inl _ \<Rightarrow> Inr 2
                     | Inr _ \<Rightarrow> Inr (exit_code all_passed)))))"

subsection \<open>What a check appends\<close>

text \<open>
  Every check only appends to \<open>results\<close>, and no check reads the strict flag.
  \<open>emitted f v\<close> is what \<open>f\<close> appends when it runs in the state \<open>v\<close>, computed by running
  it from an empty list with the flag off. \<open>appends f\<close> says that in every state \<open>f\<close>
  leaves the other fields alone and appends exactly that, whatever was collected before
  and whatever the flag is.
\<close>

definition emitted :: "(IaCValidator \<Rightarrow> IaCValidator) \<Rightarrow> IaCValidator \<Rightarrow> ValidationResult list" where
  "emitted f v = results (f (v\<lparr>results := [], strict := False\<rparr>))"

definition appends :: "(IaCValidator \<Rightarrow> IaCValidator) \<Rightarrow> bool" where
  "appends f = (\<forall>v. f v = v\<lparr>results := results v @ emitted f v\<rparr>)"

text \<open>The same for a check that can stop the run.\<close>

definition emitted_err :: "(IaCValidator \<Rightarrow> error + IaCValidator) \<Rightarrow> IaCValidator \<Rightarrow> error + ValidationResult list" where
  "emitted_err f v = map_sum (\<lambda>e. e) results (f (v\<lparr>results := [], strict := False\<rparr>))"

definition appends_err :: "(IaCValidator \<Rightarrow> error + IaCValidator) \<Rightarrow> bool" where
  "appends_err f =
     (\<forall>v. f v = map_sum (\<lambda>e. e) (\<lambda>E. v\<lparr>results := results v @ E\<rparr>) (emitted_err f v))"

subsection \<open>The state after discovery and the results of a whole run\<close>

text \<open>
  \<open>discovered p s fs\<close> is the validator for path \<open>p\<close> right after the files of the tree
  \<open>fs\<close> were discovered. \<open>collected\<close> lists what the eight checks append, in the order in
  which \<^verbatim>\<open>run_all_checks\<close> calls them; what the two checks that can stop the run append
  is passed in.
\<close>

definition discovered :: "string \<Rightarrow> bool \<Rightarrow> tree \<Rightarrow> IaCValidator" where
  "discovered p s fs = \<lparr>path = p, strict = s, results = [], tf_files = glob_tf fs\<rparr>"

definition collected :: "tree \<Rightarrow> IaCValidator \<Rightarrow> ValidationResult list \<Rightarrow> ValidationResult list \<Rightarrow> ValidationResult list" where
  "collected fs v Esec Eval =
     emitted (check_file_structure fs) v @ emitted (check_magic_numbers fs) v @
     emitted check_string_booleans v @ emitted check_naming_conventions v @
     emitted (check_documentation fs) v @ Esec @ Eval @
     emitted (check_output_organization fs) v"

subsection \<open>Concrete trees\<close>

text \<open>A tree with a single empty configuration file, and the state its run ends in.\<close>

definition bare_tree :: tree where
  "bare_tree = [(''main.tf'', [])]"

definition bare_tree_run :: IaCValidator where
  "bare_tree_run =
     \<lparr>path = ''.'', strict = False,
      results =
        [\<lparr>check_name = ''Required File: README.md'', passed = False,
          message = ''Project documentation MISSING'', file_path = [], line_number = 0\<rparr>,
         \<lparr>check_name = ''Required File: variables.tf'', passed = False,
          message = ''Variable declarations MISSING'', file_path = [], line_number = 0\<rparr>,
         \<lparr>check_name = ''Required File: outputs.tf'', passed = False,
          message = ''Output definitions MISSING'', file_path = [], line_number = 0\<rparr>,
         \<lparr>check_name = ''Required File: versions.tf'', passed = False,
          message = ''Provider versions (or provider.tf) MISSING'', file_path = [],
          line_number = 0\<rparr>,
         \<lparr>check_name = ''Required File: .gitignore'', passed = False,
          message = ''Git exclusions MISSING'', file_path = [], line_number = 0\<rparr>,
         \<lparr>check_name = ''Constants File'', passed = False,
          message = ''locals_constants.tf MISSING - magic numbers may be present'',
          file_path = [], line_number = 0\<rparr>,
         \<lparr>check_name = ''README.md'', passed = False,
          message = ''README.md not found'', file_path = [], line_number = 0\<rparr>,
         \<lparr>check_name = ''Output Organization'', passed = False,
          message = ''outputs.tf not found - outputs may be scattered'',
          file_path = [], line_number = 0\<rparr>],
      tf_files = [(''main.tf'', [])]\<rparr>"

text \<open>Taking a file out of a tree.\<close>

definition remove_file :: "string \<Rightarrow> tree \<Rightarrow> tree" where
  "remove_file n fs = filter (\<lambda>(p, c). p \<noteq> n) fs"

text \<open>
  A tree in which every check passes, the state its run ends in, and the state the run
  ends in once \<^verbatim>\<open>README.md\<close> is taken out.
\<close>

definition compliant_tree :: tree where
  "compliant_tree =
     [(''README.md'', ''# Network\<newline>## Prerequisites\<newline>## Quick Start\<newline>## Configuration\<newline>''),
      (''variables.tf'', ''variable \"env\" {\<newline>  default = \"dev\"\<newline>}\<newline>''),
      (''outputs.tf'', []), (''versions.tf'', []), (''locals_constants.tf'', []),
      (''.gitignore'', ''.terraform''), (''terraform.tfvars.example'', ''env = \"dev\"'')]"

definition compliant_run :: IaCValidator where
  "compliant_run =
     \<lparr>path = ''.'', strict = False,
      results =
        [\<lparr>check_name = ''Required File: README.md'', passed = True,
          message = ''Project documentation found'', file_path = [], line_number = 0\<rparr>,
         \<lparr>check_name = ''Required File: variables.tf'', passed = True,
          message = ''Variable declarations found'', file_path = [], line_number = 0\<rparr>,
         \<lparr>check_name = ''Required File: outputs.tf'', passed = True,
          message = ''Output definitions found'', file_path = [], line_number = 0\<rparr>,
         \<lparr>check_name = ''Required File: versions.tf'', passed = True,
          message = ''Provider versions (or provider.tf) found'', file_path = [], line_number = 0\<rparr>,
         \<lparr>check_name = ''Required File: .gitignore'', passed = True,
          message = ''Git exclusions found'', file_path = [], line_number = 0\<rparr>,
         \<lparr>check_name = ''Constants File'', passed = True,
          message = ''locals_constants.tf found'', file_path = [], line_number = 0\<rparr>,
         \<lparr>check_name = ''README: Prerequisites section'', passed = True,
          message = ''Prerequisites section found'', file_path = [], line_number = 0\<rparr>,
         \<lparr>check_name = ''README: Quick Start or Getting Started section'', passed = True,
          message = ''Quick Start or Getting Started section found'', file_path = [], line_number = 0\<rparr>,
         \<lparr>check_name = ''README: Configuration section'', passed = True,
          message = ''Configuration section found'', file_path = [], line_number = 0\<rparr>,
         \<lparr>check_name = ''Example Configuration'', passed = True,
          message = ''terraform.tfvars.example found'', file_path = [], line_number = 0\<rparr>],
      tf_files = [(''variables.tf'', ''variable \"env\" {\<newline>  default = \"dev\"\<newline>}\<newline>''), (''outputs.tf'', []), (''versions.tf'', []),
                  (''locals_constants.tf'', [])]\<rparr>"

definition compliant_run_without_readme :: IaCValidator where
  "compliant_run_without_readme =
     \<lparr>path = ''.'', strict = False,
      results =
        [\<lparr>check_name = ''Required File: README.md'', passed = False,
          message = ''Project documentation MISSING'', file_path = [], line_number = 0\<rparr>,
         \<lparr>check_name = ''Required File: variables.tf'', passed = True,
          message = ''Variable declarations found'', file_path = [], line_number = 0\<rparr>,
         \<lparr>check_name = ''Required File: outputs.tf'', passed = True,
          message = ''Output definitions found'', file_path = [], line_number = 0\<rparr>,
         \<lparr>check_name = ''Required File: versions.tf'', passed = True,
          message = ''Provider versions (or provider.tf) found'', file_path = [], line_number = 0\<rparr>,
         \<lparr>check_name = ''Required File: .gitignore'', passed = True,
          message = ''Git exclusions found'', file_path = [], line_number = 0\<rparr>,
         \<lparr>check_name = ''Constants File'', passed = True,
          message = ''locals_constants.tf found'', file_path = [], line_number = 0\<rparr>,
         \<lparr>check_name = ''README.md'', passed = False,
          message = ''README.md not found'', file_path = [], line_number = 0\<rparr>],
      tf_files = [(''variables.tf'', ''variable \"env\" {\<newline>  default = \"dev\"\<newline>}\<newline>''), (''outputs.tf'', []), (''versions.tf'', []),
                  (''locals_constants.tf'', [])]\<rparr>"

text \<open>A tree whose only configuration file sits in a module directory.\<close>

definition nested_tree :: tree where
  "nested_tree = [(''modules/db/variables.tf'', ''variable \"db_password\" {}'')]"

text \<open>
  Trees for the output rule: a dedicated \<^verbatim>\<open>outputs.tf\<close> next to a \<^verbatim>\<open>main.tf\<close> that holds
  two output declarations, one, or none.
\<close>

definition two_outputs_tf :: string where
  "two_outputs_tf = ''output \"id\" {\<newline>  value = 1\<newline>}\<newline>output \"name\" {\<newline>  value = \"web\"\<newline>}\<newline>''"

definition one_output_tf :: string where
  "one_output_tf = ''resource \"null_resource\" \"a\" {\<newline>}\<newline>output \"id\" {\<newline>  value = 1\<newline>}\<newline>''"

definition no_output_tf :: string where
  "no_output_tf = ''resource \"null_resource\" \"a\" {\<newline>}\<newline>''"

definition outputs_tree :: "string \<Rightarrow> tree" where
  "outputs_tree main_tf = [(''outputs.tf'', ''output \"zone\" {\<newline>  value = \"a\"\<newline>}\<newline>''), (''main.tf'', main_tf)]"

text \<open>A variable with an object type and a default value.\<close>

definition object_default_tf :: string where
  "object_default_tf = ''variable \"owner\" {\<newline>  type    = object({ team = string })\<newline>  default = { team = \"core\" }\<newline>}\<newline>''"

text \<open>
  A password variable whose sensitivity marker follows a validation block, and a key
  variable that is declared not sensitive and nullable. The pattern is a true-valued
  marker as the configuration language writes it, \<^verbatim>\<open>sensitive\s*=\s*true\<close>.
\<close>

definition marker_rx :: rx where
  "marker_rx = seqs [lit ''sensitive'', Star is_space, lit ''='', Star is_space, lit ''true'']"

definition guarded_password_tf :: string where
  "guarded_password_tf = ''variable \"db_password\" {\<newline>  type = string\<newline>  validation {\<newline>    condition     = length(var.db_password) > 7\<newline>    error_message = \"Too short.\"\<newline>  }\<newline>  sensitive = true\<newline>}\<newline>''"

definition unprotected_key_tf :: string where
  "unprotected_key_tf = ''variable \"api_key\" {\<newline>  sensitive = false\<newline>  nullable  = true\<newline>}\<newline>''"

text \<open>A file with a port literal, and a port literal next to a constant reference.\<close>

definition ports_tf :: string where
  "ports_tf = ''port = 8080\<newline>port = 443 + local.offset\<newline>''"

text \<open>
  A network security group with an allow rule and a deny rule, both open to any source.
\<close>

definition nsg_tf :: string where
  "nsg_tf =
     ''resource \"azurerm_network_security_group\" \"web\" {\<newline>'' @
     ''  security_rule {\<newline>'' @
     ''    name                       = \"https-in\"\<newline>'' @
     ''    access                     = \"Allow\"\<newline>'' @
     ''    source_address_prefix      = \"*\"\<newline>'' @
     ''    destination_address_prefix = \"*\"\<newline>'' @
     ''  }\<newline>'' @
     ''  security_rule {\<newline>'' @
     ''    name                       = \"deny-rest\"\<newline>'' @
     ''    priority                   = 4096\<newline>'' @
     ''    direction                  = \"Inbound\"\<newline>'' @
     ''    access                     = \"Deny\"\<newline>'' @
     ''    protocol                   = \"*\"\<newline>'' @
     ''    destination_port_range     = \"*\"\<newline>'' @
     ''    source_address_prefix      = \"*\"\<newline>'' @
     ''    destination_address_prefix = \"*\"\<newline>'' @
     ''  }\<newline>'' @
     ''}\<newline>''"

text \<open>
  The position at which line \<open>i\<close> (counted from 1) of a text starts, and the \<open>n\<close>
  characters of the text that come right before a position.
\<close>

definition line_start :: "string \<Rightarrow> nat \<Rightarrow> nat" where
  "line_start content i =
     length (concat (map (\<lambda>l. l @ [CHR 0x0A]) (take (i - 1) (split_lines content))))"

definition preceding :: "string \<Rightarrow> nat \<Rightarrow> nat \<Rightarrow> string" where
  "preceding content pos n = drop (pos - n) (take pos content)"

section \<open>Properties\<close>

subsection \<open>Appending checks\<close>

declare search_from.simps [simp del] finditer_from.simps [simp del] mtch.simps [simp del]

lemma emitted_results_update [simp]: "emitted f (v\<lparr>results := xs\<rparr>) = emitted f v"
  by (simp add: emitted_def)

lemma emitted_strict_update [simp]: "emitted f (v\<lparr>strict := b\<rparr>) = emitted f v"
  by (simp add: emitted_def)

lemma appendsD: "appends f \<Longrightarrow> f v = v\<lparr>results := results v @ emitted f v\<rparr>"
  by (simp add: appends_def)

lemma appends_skip [simp]: "appends (\<lambda>v. v)"
  by (simp add: appends_def emitted_def)

lemma emitted_skip [simp]: "emitted (\<lambda>v. v) v = []"
  by (simp add: emitted_def)

lemma appends_append_result [simp]: "appends (append_result cn ok msg fp lnum)"
  by (simp add: appends_def emitted_def append_result_def)

lemma emitted_append_result [simp]:
  "emitted (append_result cn ok msg fp lnum) v =
     [\<lparr>check_name = cn, passed = ok, message = msg, file_path = fp, line_number = lnum\<rparr>]"
  by (simp add: emitted_def append_result_def)

lemma appends_then:
  assumes "appends f" and "appends g"
  shows "appends (\<lambda>v. g (f v))" and "emitted (\<lambda>v. g (f v)) v = emitted f v @ emitted g v"
proof -
  have step: "g (f w) = w\<lparr>results := results w @ emitted f w @ emitted g w\<rparr>" for w
    by (simp add: appendsD [OF assms(1), of w] appendsD [OF assms(2), of "w\<lparr>results := results w @ emitted f w\<rparr>"])
  show e: "emitted (\<lambda>v. g (f v)) v = emitted f v @ emitted g v" for v
  proof -
    have "emitted (\<lambda>v. g (f v)) v = results (g (f (v\<lparr>results := [], strict := False\<rparr>)))"
      by (simp add: emitted_def)
    also have "\<dots> = emitted f v @ emitted g v"
      by (simp add: step [of "v\<lparr>results := [], strict := False\<rparr>"])
    finally show ?thesis .
  qed
  show "appends (\<lambda>v. g (f v))"
    unfolding appends_def
  proof
    fix v
    show "g (f v) = v\<lparr>results := results v @ emitted (\<lambda>v. g (f v)) v\<rparr>"
      using step [of v] e [of v] by simp
  qed
qed

lemma fold_appends:
  assumes "\<And>x. appends (f x)"
  shows "fold f xs v = v\<lparr>results := results v @ concat (map (\<lambda>x. emitted (f x) v) xs)\<rparr>"
proof (induction xs arbitrary: v)
  case Nil
  show ?case by simp
next
  case (Cons x xs)
  have "fold f (x # xs) v = fold f xs (v\<lparr>results := results v @ emitted (f x) v\<rparr>)"
    by (simp add: appendsD [OF assms, symmetric])
  then show ?case by (simp add: Cons.IH)
qed

lemma appends_fold:
  assumes "\<And>x. appends (f x)"
  shows "appends (fold f xs)" and "emitted (fold f xs) v = concat (map (\<lambda>x. emitted (f x) v) xs)"
proof -
  show e: "emitted (fold f xs) v = concat (map (\<lambda>x. emitted (f x) v) xs)" for v
  proof -
    have "emitted (fold f xs) v = results (fold f xs (v\<lparr>results := [], strict := False\<rparr>))"
      by (simp add: emitted_def)
    also have "\<dots> = concat (map (\<lambda>x. emitted (f x) v) xs)"
      by (simp add: fold_appends [OF assms, where xs = xs and v = "v\<lparr>results := [], strict := False\<rparr>"])
    finally show ?thesis .
  qed
  show "appends (fold f xs)"
    unfolding appends_def
  proof
    fix v
    show "fold f xs v = v\<lparr>results := results v @ emitted (fold f xs) v\<rparr>"
      using fold_appends [OF assms, where xs = xs and v = v] e [of v] by simp
  qed
qed


subsection \<open>Lemmas: \<^verbatim>\<open>check_file_structure\<close>\<close>

lemma required_file_step_appends [simp]: "appends (required_file_step fs fd)"
  by (simp add: appends_def emitted_def required_file_step_def append_result_def Let_def)

lemma check_file_structure_appends: "appends (check_file_structure fs)"
proof -
  have "check_file_structure fs =
          (\<lambda>v. append_result ''Constants File'' (exists_file fs ''locals_constants.tf'')
             (if exists_file fs ''locals_constants.tf'' then ''locals_constants.tf found''
              else ''locals_constants.tf MISSING - magic numbers may be present'') [] 0
             (fold (required_file_step fs) required_files v))"
    by (rule ext) (simp add: check_file_structure_def Let_def)
  then show ?thesis
    by (simp add: appends_then(1) appends_fold(1))
qed

subsection \<open>Lemmas: \<^verbatim>\<open>check_magic_numbers\<close>\<close>

lemma magic_match_step_appends [simp]: "appends (magic_match_step rel i line d m)"
  by (simp add: appends_def emitted_def magic_match_step_def append_result_def)

lemma magic_pattern_step_eq:
  "magic_pattern_step rel i line pd = fold (magic_match_step rel i line (snd pd)) (finditer (fst pd) line)"
  by (rule ext) (simp add: magic_pattern_step_def)

lemma magic_pattern_step_appends [simp]: "appends (magic_pattern_step rel i line pd)"
  by (simp add: magic_pattern_step_eq appends_fold(1))

lemma magic_line_step_eq:
  "magic_line_step rel il =
     (if startswith (strip (snd il)) ''#'' then (\<lambda>v. v)
      else fold (magic_pattern_step rel (fst il) (snd il)) magic_patterns)"
  by (rule ext) (simp add: magic_line_step_def)

lemma magic_line_step_appends [simp]: "appends (magic_line_step rel il)"
  by (simp add: magic_line_step_eq appends_fold(1))

lemma magic_file_step_eq:
  "magic_file_step tf =
     (if name_of (fst tf) = ''locals_constants.tf'' then (\<lambda>v. v)
      else fold (magic_line_step (fst tf)) (enumerate_from 1 (split_lines (snd tf))))"
  by (rule ext) (simp add: magic_file_step_def)

lemma magic_file_step_appends [simp]: "appends (magic_file_step tf)"
  by (simp add: magic_file_step_eq appends_fold(1))

text \<open>A loop over the discovered files.\<close>

lemma files_loop:
  assumes "\<And>x. appends (f x)"
  shows "appends (\<lambda>v. fold f (tf_files v) v)"
    and "emitted (\<lambda>v. fold f (tf_files v) v) v = concat (map (\<lambda>x. emitted (f x) v) (tf_files v))"
proof -
  show e: "emitted (\<lambda>v. fold f (tf_files v) v) v = concat (map (\<lambda>x. emitted (f x) v) (tf_files v))" for v
  proof -
    have "emitted (\<lambda>v. fold f (tf_files v) v) v =
            results (fold f (tf_files v) (v\<lparr>results := [], strict := False\<rparr>))"
      by (simp add: emitted_def)
    also have "\<dots> = concat (map (\<lambda>x. emitted (f x) v) (tf_files v))"
      by (simp add: fold_appends [OF assms, where xs = "tf_files v" and v = "v\<lparr>results := [], strict := False\<rparr>"])
    finally show ?thesis .
  qed
  show "appends (\<lambda>v. fold f (tf_files v) v)"
    unfolding appends_def
  proof
    fix v
    show "fold f (tf_files v) v = v\<lparr>results := results v @ emitted (\<lambda>v. fold f (tf_files v) v) v\<rparr>"
      using fold_appends [OF assms, where xs = "tf_files v" and v = v] e [of v] by simp
  qed
qed

lemma check_magic_numbers_eq: "check_magic_numbers fs = (\<lambda>v. fold magic_file_step (tf_files v) v)"
  by (rule ext) (simp add: check_magic_numbers_def)

lemma check_magic_numbers_appends: "appends (check_magic_numbers fs)"
  by (simp add: check_magic_numbers_eq files_loop(1))


lemma check_file_structure_emitted:
  "emitted (check_file_structure fs) v =
     concat (map (\<lambda>fd. emitted (required_file_step fs fd) v) required_files) @
     [\<lparr>check_name = ''Constants File'', passed = exists_file fs ''locals_constants.tf'',
       message = (if exists_file fs ''locals_constants.tf'' then ''locals_constants.tf found''
                  else ''locals_constants.tf MISSING - magic numbers may be present''),
       file_path = [], line_number = 0\<rparr>]"
proof -
  have "check_file_structure fs =
          (\<lambda>v. append_result ''Constants File'' (exists_file fs ''locals_constants.tf'')
             (if exists_file fs ''locals_constants.tf'' then ''locals_constants.tf found''
              else ''locals_constants.tf MISSING - magic numbers may be present'') [] 0
             (fold (required_file_step fs) required_files v))"
    by (rule ext) (simp add: check_file_structure_def Let_def)
  then show ?thesis
    by (simp add: appends_then(2) appends_fold)
qed

subsection \<open>Lemmas: \<^verbatim>\<open>check_string_booleans\<close>\<close>

lemma string_boolean_line_step_appends [simp]: "appends (string_boolean_line_step rel il)"
  by (simp add: appends_def emitted_def string_boolean_line_step_def append_result_def Let_def)

lemma string_boolean_file_step_eq:
  "string_boolean_file_step tf =
     fold (string_boolean_line_step (fst tf)) (enumerate_from 1 (split_lines (snd tf)))"
  by (rule ext) (simp add: string_boolean_file_step_def)

lemma string_boolean_file_step_appends [simp]: "appends (string_boolean_file_step tf)"
  by (simp add: string_boolean_file_step_eq appends_fold(1))

lemma check_string_booleans_eq:
  "check_string_booleans = (\<lambda>v. fold string_boolean_file_step (tf_files v) v)"
  by (rule ext) (simp add: check_string_booleans_def)

lemma check_string_booleans_appends: "appends check_string_booleans"
  by (simp add: check_string_booleans_eq files_loop(1))

subsection \<open>Lemmas: \<^verbatim>\<open>check_naming_conventions\<close>\<close>

lemma variable_name_step_appends [simp]: "appends (variable_name_step rel n)"
  by (simp add: appends_def emitted_def variable_name_step_def append_result_def Let_def)

lemma variable_naming_file_step_eq:
  "variable_naming_file_step tf =
     (if name_of (fst tf) \<noteq> ''variables.tf'' then (\<lambda>v. v)
      else fold (variable_name_step (fst tf)) (findall var_pattern (snd tf)))"
  by (rule ext) (simp add: variable_naming_file_step_def)

lemma variable_naming_file_step_appends [simp]: "appends (variable_naming_file_step tf)"
  by (simp add: variable_naming_file_step_eq appends_fold(1))

lemma resource_name_step_appends [simp]: "appends (resource_name_step rel n)"
  by (simp add: appends_def emitted_def resource_name_step_def append_result_def)

lemma resource_naming_file_step_eq:
  "resource_naming_file_step tf =
     fold (resource_name_step (fst tf)) (findall resource_pattern (snd tf))"
  by (rule ext) (simp add: resource_naming_file_step_def)

lemma resource_naming_file_step_appends [simp]: "appends (resource_naming_file_step tf)"
  by (simp add: resource_naming_file_step_eq appends_fold(1))

lemma check_naming_conventions_eq:
  "check_naming_conventions =
     (\<lambda>v. (\<lambda>v. fold resource_naming_file_step (tf_files v) v)
             ((\<lambda>v. fold variable_naming_file_step (tf_files v) v) v))"
  by (rule ext) (simp add: check_naming_conventions_def Let_def)

lemma check_naming_conventions_appends: "appends check_naming_conventions"
  unfolding check_naming_conventions_eq
  by (rule appends_then(1)) (simp_all add: files_loop(1))

subsection \<open>Lemmas: \<^verbatim>\<open>check_documentation\<close>\<close>

lemma check_documentation_appends: "appends (check_documentation fs)"
  by (simp add: appends_def emitted_def check_documentation_def section_step_def
      required_sections_def append_result_def Let_def split: option.split)

subsection \<open>Lemmas: \<^verbatim>\<open>check_output_organization\<close>\<close>

lemma output_file_step_appends [simp]: "appends (output_file_step tf)"
  by (simp add: appends_def emitted_def output_file_step_def append_result_def)

lemma check_output_organization_eq:
  "check_output_organization fs =
     (if \<not> exists_file fs ''outputs.tf''
      then append_result ''Output Organization'' False
             ''outputs.tf not found - outputs may be scattered'' [] 0
      else (\<lambda>v. fold output_file_step (tf_files v) v))"
  by (rule ext) (simp add: check_output_organization_def)

lemma check_output_organization_appends: "appends (check_output_organization fs)"
  by (simp add: check_output_organization_eq files_loop(1))


subsection \<open>Checks that can stop the run\<close>

lemma emitted_err_results_update [simp]: "emitted_err f (v\<lparr>results := xs\<rparr>) = emitted_err f v"
  by (simp add: emitted_err_def)

lemma emitted_err_strict_update [simp]: "emitted_err f (v\<lparr>strict := b\<rparr>) = emitted_err f v"
  by (simp add: emitted_err_def)

lemma appends_errD:
  "appends_err f \<Longrightarrow> f v = map_sum (\<lambda>e. e) (\<lambda>E. v\<lparr>results := results v @ E\<rparr>) (emitted_err f v)"
  by (simp add: appends_err_def)

lemma appends_err_Inr [simp]: "appends_err Inr"
  by (simp add: appends_err_def emitted_err_def)

lemma emitted_err_Inr [simp]: "emitted_err Inr v = Inr []"
  by (simp add: emitted_err_def)

lemma fold_err_appends:
  assumes "\<And>x. appends_err (f x)"
  shows "fold_err f xs v =
           map_sum (\<lambda>e. e) (\<lambda>E. v\<lparr>results := results v @ E\<rparr>) (emitted_err (fold_err f xs) v)"
proof (induction xs arbitrary: v)
  case Nil
  show ?case by (simp add: emitted_err_def)
next
  case (Cons x xs)
  let ?v0 = "v\<lparr>results := [], strict := False\<rparr>"
  show ?case
  proof (cases "emitted_err (f x) v")
    case (Inl e)
    then have "f x v = Inl e" "f x ?v0 = Inl e"
      using appends_errD [OF assms, of x v] appends_errD [OF assms, of x ?v0] by simp_all
    then show ?thesis by (simp add: emitted_err_def)
  next
    case (Inr E)
    then have a: "f x v = Inr (v\<lparr>results := results v @ E\<rparr>)"
      and b: "f x ?v0 = Inr (?v0\<lparr>results := E\<rparr>)"
      using appends_errD [OF assms, of x v] appends_errD [OF assms, of x ?v0] by simp_all
    have c: "fold_err f xs (v\<lparr>results := results v @ E\<rparr>) =
               map_sum (\<lambda>e. e) (\<lambda>E'. v\<lparr>results := results v @ E @ E'\<rparr>) (emitted_err (fold_err f xs) v)"
      using Cons.IH [of "v\<lparr>results := results v @ E\<rparr>"] by (simp add: id_def)
    have d: "fold_err f xs (?v0\<lparr>results := E\<rparr>) =
               map_sum (\<lambda>e. e) (\<lambda>E'. ?v0\<lparr>results := E @ E'\<rparr>) (emitted_err (fold_err f xs) v)"
      using Cons.IH [of "?v0\<lparr>results := E\<rparr>"] by (simp add: id_def)
    have e: "emitted_err (fold_err f (x # xs)) v = map_sum (\<lambda>e. e) ((@) E) (emitted_err (fold_err f xs) v)"
      using b d by (simp add: emitted_err_def [of "fold_err f (x # xs)"] sum.map_comp comp_def id_def)
    have lhs: "fold_err f (x # xs) v = fold_err f xs (v\<lparr>results := results v @ E\<rparr>)"
      using a by simp
    show ?thesis
      by (simp only: lhs e c sum.map_comp comp_def id_def)
  qed
qed

lemma appends_err_fold_err: "(\<And>x. appends_err (f x)) \<Longrightarrow> appends_err (fold_err f xs)"
  unfolding appends_err_def [of "fold_err f xs"] using fold_err_appends [of f xs] by blast

lemma appends_then_err:
  assumes "appends f" and "appends_err h"
  shows "appends_err (\<lambda>v. h (f v))"
    and "emitted_err (\<lambda>v. h (f v)) v = map_sum (\<lambda>e. e) ((@) (emitted f v)) (emitted_err h v)"
proof -
  have step: "h (f w) = map_sum (\<lambda>e. e) (\<lambda>E. w\<lparr>results := results w @ emitted f w @ E\<rparr>) (emitted_err h w)" for w
    using appends_errD [OF assms(2), of "w\<lparr>results := results w @ emitted f w\<rparr>"]
    by (simp add: appendsD [OF assms(1), of w])
  show e: "emitted_err (\<lambda>v. h (f v)) v = map_sum (\<lambda>e. e) ((@) (emitted f v)) (emitted_err h v)" for v
  proof -
    have "emitted_err (\<lambda>v. h (f v)) v = map_sum (\<lambda>e. e) results (h (f (v\<lparr>results := [], strict := False\<rparr>)))"
      by (simp add: emitted_err_def)
    also have "\<dots> = map_sum (\<lambda>e. e) ((@) (emitted f v)) (emitted_err h v)"
      by (simp add: step [of "v\<lparr>results := [], strict := False\<rparr>"] sum.map_comp comp_def id_def)
    finally show ?thesis .
  qed
  show "appends_err (\<lambda>v. h (f v))"
    unfolding appends_err_def
  proof
    fix v
    show "h (f v) = map_sum (\<lambda>e. e) (\<lambda>E. v\<lparr>results := results v @ E\<rparr>) (emitted_err (\<lambda>v. h (f v)) v)"
      using step [of v] e [of v] by (simp add: sum.map_comp comp_def id_def)
  qed
qed

subsection \<open>Lemmas: \<^verbatim>\<open>check_security_standards\<close>\<close>

lemma security_line_step_appends [simp]: "appends (security_line_step rel content il)"
  by (simp add: appends_def emitted_def security_line_step_def append_result_def Let_def)

lemma security_file_step_eq:
  "security_file_step tf =
     fold (security_line_step (fst tf) (snd tf)) (enumerate_from 1 (split_lines (snd tf)))"
  by (rule ext) (simp add: security_file_step_def)

lemma security_file_step_appends [simp]: "appends (security_file_step tf)"
  by (simp add: security_file_step_eq appends_fold(1))

lemma sensitive_var_step_appends [simp]: "appends_err (sensitive_var_step content n)"
  by (simp add: appends_err_def emitted_err_def sensitive_var_step_def append_result_def Let_def
      split: sum.split option.split)

lemma check_security_standards_eq:
  "check_security_standards fs =
     (\<lambda>v. (case map_of fs ''variables.tf'' of
              None \<Rightarrow> Inr
            | Some content \<Rightarrow>
                fold_err (sensitive_var_step content) (findall sensitive_vars_rx content))
           ((\<lambda>v. fold security_file_step (tf_files v) v) v))"
  by (rule ext) (simp add: check_security_standards_def Let_def split: option.split)

lemma check_security_standards_appends: "appends_err (check_security_standards fs)"
  unfolding check_security_standards_eq
  by (rule appends_then_err(1)) (simp_all add: files_loop(1) appends_err_fold_err split: option.split)

subsection \<open>Lemmas: \<^verbatim>\<open>check_variable_validation\<close>\<close>

lemma variable_validation_step_appends [simp]: "appends_err (variable_validation_step content n)"
  by (simp add: appends_err_def emitted_err_def variable_validation_step_def append_result_def Let_def
      split: sum.split option.split)

lemma check_variable_validation_eq:
  "check_variable_validation fs =
     (case map_of fs ''variables.tf'' of
        None \<Rightarrow> Inr
      | Some content \<Rightarrow>
          fold_err (variable_validation_step content) (findall var_blocks_rx content))"
  by (rule ext) (simp add: check_variable_validation_def split: option.split)

lemma check_variable_validation_appends: "appends_err (check_variable_validation fs)"
  by (simp add: check_variable_validation_eq appends_err_fold_err split: option.split)


subsection \<open>Lemmas: \<^verbatim>\<open>run_all_checks\<close>\<close>

lemma length_filter_all: "(length (filter P xs) = length xs) = list_all P xs"
proof (induction xs)
  case Nil
  show ?case by simp
next
  case (Cons x xs)
  have "length (filter P xs) \<le> length xs" by simp
  then have "length (filter P xs) \<noteq> Suc (length xs)" by linarith
  with Cons show ?case by simp
qed

lemma no_failure_iff: "(length xs = length (filter P xs)) = list_all P xs"
  using length_filter_all [of P xs] by auto

lemma discovered_simps [simp]:
  "results (discovered p s fs) = []"
  "tf_files (discovered p s fs) = glob_tf fs"
  "path (discovered p s fs) = p"
  "strict (discovered p s fs) = s"
  by (simp_all add: discovered_def)

lemma run_all_checks_empty:
  "glob_tf fs = [] \<Longrightarrow>
   run_all_checks fs (init p s) =
     Inr (False, \<lparr>path = p, strict = s,
                  results = [\<lparr>check_name = ''File Discovery'', passed = False,
                              message = ''No Terraform files found in '' @ p,
                              file_path = [], line_number = 0\<rparr>],
                  tf_files = []\<rparr>)"
  by (simp add: run_all_checks_def init_def append_result_def)

lemma run_all_checks_found:
  assumes "glob_tf fs \<noteq> []"
  shows "run_all_checks fs (init p s) =
     (case emitted_err (check_security_standards fs) (discovered p s fs) of
        Inl e \<Rightarrow> Inl e
      | Inr Esec \<Rightarrow>
          (case emitted_err (check_variable_validation fs) (discovered p s fs) of
             Inl e \<Rightarrow> Inl e
           | Inr Eval \<Rightarrow>
               Inr (list_all passed (collected fs (discovered p s fs) Esec Eval),
                    (discovered p s fs)\<lparr>results := collected fs (discovered p s fs) Esec Eval\<rparr>)))"
proof -
  let ?v = "discovered p s fs"
  let ?A = "emitted (check_file_structure fs) ?v"
  let ?B = "emitted (check_magic_numbers fs) ?v"
  let ?C = "emitted check_string_booleans ?v"
  let ?D = "emitted check_naming_conventions ?v"
  let ?F = "emitted (check_documentation fs) ?v"
  let ?E5 = "?A @ ?B @ ?C @ ?D @ ?F"
  have v: "(init p s)\<lparr>tf_files := glob_tf fs\<rparr> = ?v"
    by (simp add: init_def discovered_def)
  have five: "check_documentation fs (check_naming_conventions (check_string_booleans
                (check_magic_numbers fs (check_file_structure fs ?v)))) = ?v\<lparr>results := ?E5\<rparr>"
    by (simp add: appendsD [OF check_file_structure_appends] appendsD [OF check_magic_numbers_appends]
        appendsD [OF check_string_booleans_appends] appendsD [OF check_naming_conventions_appends]
        appendsD [OF check_documentation_appends])
  have sec: "check_security_standards fs (?v\<lparr>results := ?E5\<rparr>) =
               map_sum (\<lambda>e. e) (\<lambda>E. ?v\<lparr>results := ?E5 @ E\<rparr>) (emitted_err (check_security_standards fs) ?v)"
    using appends_errD [OF check_security_standards_appends, of fs "?v\<lparr>results := ?E5\<rparr>"] by simp
  have val: "check_variable_validation fs (?v\<lparr>results := ?A @ ?B @ ?C @ ?D @ ?F @ E\<rparr>) =
               map_sum (\<lambda>e. e) (\<lambda>E'. ?v\<lparr>results := ?A @ ?B @ ?C @ ?D @ ?F @ E @ E'\<rparr>)
                 (emitted_err (check_variable_validation fs) ?v)" for E
    using appends_errD [OF check_variable_validation_appends, of fs "?v\<lparr>results := ?E5 @ E\<rparr>"] by simp
  have out: "check_output_organization fs (?v\<lparr>results := ?A @ ?B @ ?C @ ?D @ ?F @ E @ E'\<rparr>) =
               ?v\<lparr>results := collected fs ?v E E'\<rparr>" for E E'
    by (simp add: appendsD [OF check_output_organization_appends] collected_def)
  have ne: "tf_files ?v \<noteq> []"
    using assms by simp
  have run: "run_all_checks fs (init p s) =
      (case check_security_standards fs (?v\<lparr>results := ?E5\<rparr>) of
         Inl e \<Rightarrow> Inl e
       | Inr w \<Rightarrow>
           (case check_variable_validation fs w of
              Inl e \<Rightarrow> Inl e
            | Inr w' \<Rightarrow>
                Inr (snd (snd (summary (check_output_organization fs w'))) = 0,
                     check_output_organization fs w')))"
    unfolding run_all_checks_def Let_def v by (simp only: ne if_False five)
  show ?thesis
  proof (cases "emitted_err (check_security_standards fs) ?v")
    case (Inl e)
    then show ?thesis by (simp add: run sec)
  next
    case Esec: (Inr Esec)
    show ?thesis
    proof (cases "emitted_err (check_variable_validation fs) ?v")
      case (Inl e)
      then show ?thesis by (simp add: run sec Esec val)
    next
      case (Inr Eval)
      then show ?thesis
        by (simp add: run sec Esec val out summary_def Let_def no_failure_iff)
    qed
  qed
qed

lemma required_file_step_emitted:
  "emitted (required_file_step fs fd) v =
     [\<lparr>check_name = ''Required File: '' @ fst fd,
       passed = (if fst fd = ''versions.tf'' \<and> \<not> exists_file fs (fst fd)
                 then exists_file fs ''provider.tf'' else exists_file fs (fst fd)),
       message = snd fd @ '' '' @
                 (if (if fst fd = ''versions.tf'' \<and> \<not> exists_file fs (fst fd)
                      then exists_file fs ''provider.tf'' else exists_file fs (fst fd))
                  then ''found'' else ''MISSING''),
       file_path = [], line_number = 0\<rparr>]"
  by (simp add: emitted_def required_file_step_def append_result_def Let_def)

lemma check_file_structure_length: "length (emitted (check_file_structure fs) v) = 6"
  by (simp add: check_file_structure_emitted required_file_step_emitted required_files_def)

lemma check_file_structure_any_state:
  "emitted (check_file_structure fs) v = emitted (check_file_structure fs) w"
  by (simp add: check_file_structure_emitted required_file_step_emitted)

lemma generate_report_nonempty: "results v \<noteq> [] \<Longrightarrow> \<exists>r. generate_report v = Inr r"
  by (simp add: generate_report_def Let_def)

lemma generate_report_strict [simp]: "generate_report (v\<lparr>strict := b\<rparr>) = generate_report v"
  by (simp add: generate_report_def)

lemma summary_strict [simp]: "summary (v\<lparr>strict := b\<rparr>) = summary v"
  by (simp add: summary_def)

lemma discovered_strict: "discovered p True fs = (discovered p False fs)\<lparr>strict := True\<rparr>"
  by (simp add: discovered_def)

lemma collected_strict [simp]: "collected fs (v\<lparr>strict := b\<rparr>) E E' = collected fs v E E'"
  by (simp add: collected_def)

lemma run_all_checks_strict:
  "run_all_checks fs (init p True) =
     map_sum (\<lambda>e. e) (\<lambda>(ok, v). (ok, v\<lparr>strict := True\<rparr>)) (run_all_checks fs (init p False))"
proof (cases "glob_tf fs = []")
  case True
  then show ?thesis by (simp add: run_all_checks_empty)
next
  case False
  show ?thesis
    by (simp add: run_all_checks_found [OF False] discovered_strict split: sum.split)
qed

subsection \<open>What each check appends, spelled out\<close>

lemma magic_match_step_emitted:
  "emitted (magic_match_step rel i line d m) v =
     (if str_in ''local.'' line then []
      else [\<lparr>check_name = ''Magic Number'', passed = False,
             message = d @ '' hardcoded: '' @ group0 m @ '' - Should be in locals_constants.tf'',
             file_path = rel, line_number = i\<rparr>])"
  by (simp add: emitted_def magic_match_step_def append_result_def)

lemma magic_pattern_step_emitted:
  "emitted (magic_pattern_step rel i line pd) v =
     concat (map (\<lambda>m. emitted (magic_match_step rel i line (snd pd) m) v) (finditer (fst pd) line))"
  by (simp add: magic_pattern_step_eq appends_fold(2))

lemma magic_line_step_emitted:
  "emitted (magic_line_step rel il) v =
     (if startswith (strip (snd il)) ''#'' then []
      else concat (map (\<lambda>pd. emitted (magic_pattern_step rel (fst il) (snd il) pd) v) magic_patterns))"
  by (simp add: magic_line_step_eq appends_fold(2))

lemma magic_file_step_emitted:
  "emitted (magic_file_step tf) v =
     (if name_of (fst tf) = ''locals_constants.tf'' then []
      else concat (map (\<lambda>il. emitted (magic_line_step (fst tf) il) v)
                     (enumerate_from 1 (split_lines (snd tf)))))"
  by (simp add: magic_file_step_eq appends_fold(2))

lemma check_magic_numbers_emitted:
  "emitted (check_magic_numbers fs) v = concat (map (\<lambda>tf. emitted (magic_file_step tf) v) (tf_files v))"
  by (simp add: check_magic_numbers_eq files_loop(2))

lemma check_magic_numbers_names:
  "r \<in> set (emitted (check_magic_numbers fs) v) \<Longrightarrow> check_name r = ''Magic Number''"
  by (auto simp: check_magic_numbers_emitted magic_file_step_emitted magic_line_step_emitted
      magic_pattern_step_emitted magic_match_step_emitted split: if_splits)

lemma string_boolean_line_step_names:
  "r \<in> set (emitted (string_boolean_line_step rel il) v) \<Longrightarrow> check_name r = ''String Boolean''"
  by (auto simp: emitted_def string_boolean_line_step_def append_result_def Let_def split: if_splits)

lemma string_boolean_file_step_names:
  "r \<in> set (emitted (string_boolean_file_step tf) v) \<Longrightarrow> check_name r = ''String Boolean''"
  by (auto simp: string_boolean_file_step_eq appends_fold(2) dest: string_boolean_line_step_names)

lemma check_string_booleans_names:
  "r \<in> set (emitted check_string_booleans v) \<Longrightarrow> check_name r = ''String Boolean''"
  by (auto simp: check_string_booleans_eq files_loop(2) dest: string_boolean_file_step_names)

lemma variable_name_step_names:
  "r \<in> set (emitted (variable_name_step rel n) v) \<Longrightarrow> check_name r = ''Variable Naming''"
  by (auto simp: emitted_def variable_name_step_def append_result_def Let_def split: if_splits)

lemma resource_name_step_names:
  "r \<in> set (emitted (resource_name_step rel n) v) \<Longrightarrow> check_name r = ''Resource Naming''"
  by (auto simp: emitted_def resource_name_step_def append_result_def split: if_splits)

lemma check_naming_conventions_emitted:
  "emitted check_naming_conventions v =
     concat (map (\<lambda>tf. emitted (variable_naming_file_step tf) v) (tf_files v)) @
     concat (map (\<lambda>tf. emitted (resource_naming_file_step tf) v) (tf_files v))"
proof -
  have "emitted check_naming_conventions v =
          emitted (\<lambda>v. fold variable_naming_file_step (tf_files v) v) v @
          emitted (\<lambda>v. fold resource_naming_file_step (tf_files v) v) v"
    unfolding check_naming_conventions_eq
    by (rule appends_then(2)) (simp_all add: files_loop(1))
  then show ?thesis by (simp add: files_loop(2))
qed

lemma variable_naming_file_step_names:
  "r \<in> set (emitted (variable_naming_file_step tf) v) \<Longrightarrow> check_name r = ''Variable Naming''"
  by (auto simp: variable_naming_file_step_eq appends_fold(2) split: if_splits
      dest: variable_name_step_names)

lemma resource_naming_file_step_names:
  "r \<in> set (emitted (resource_naming_file_step tf) v) \<Longrightarrow> check_name r = ''Resource Naming''"
  by (auto simp: resource_naming_file_step_eq appends_fold(2) dest: resource_name_step_names)

lemma check_naming_conventions_names:
  "r \<in> set (emitted check_naming_conventions v) \<Longrightarrow>
   check_name r = ''Variable Naming'' \<or> check_name r = ''Resource Naming''"
  by (auto simp: check_naming_conventions_emitted
      dest: variable_naming_file_step_names resource_naming_file_step_names)

lemma check_documentation_emitted:
  "emitted (check_documentation fs) v =
     (case map_of fs ''README.md'' of
        None \<Rightarrow> [\<lparr>check_name = ''README.md'', passed = False, message = ''README.md not found'',
                   file_path = [], line_number = 0\<rparr>]
      | Some body \<Rightarrow>
          concat (map (\<lambda>kd. emitted (section_step (lower body) kd) v) required_sections) @
          [\<lparr>check_name = ''Example Configuration'',
            passed = exists_file fs ''terraform.tfvars.example'',
            message = ''terraform.tfvars.example '' @
                      (if exists_file fs ''terraform.tfvars.example'' then ''found'' else ''MISSING''),
            file_path = [], line_number = 0\<rparr>])"
  by (simp add: emitted_def check_documentation_def section_step_def required_sections_def
      append_result_def Let_def split: option.split)

lemma section_step_emitted:
  "emitted (section_step content kd) v =
     [\<lparr>check_name = ''README: '' @ snd kd, passed = str_in (fst kd) content,
       message = snd kd @ '' '' @ (if str_in (fst kd) content then ''found'' else ''MISSING in README.md''),
       file_path = [], line_number = 0\<rparr>]"
  by (simp add: emitted_def section_step_def append_result_def Let_def)

lemma check_documentation_names:
  "r \<in> set (emitted (check_documentation fs) v) \<Longrightarrow>
   check_name r = ''README.md'' \<or> check_name r = ''Example Configuration'' \<or>
   take 8 (check_name r) = ''README: ''"
  by (auto simp: check_documentation_emitted section_step_emitted split: option.splits)

lemma output_file_step_emitted:
  "emitted (output_file_step tf) v =
     (if name_of (fst tf) \<noteq> ''outputs.tf'' \<and> search output_rx (snd tf) \<noteq> None
      then [\<lparr>check_name = ''Output Organization'', passed = False,
             message = ''Output found in '' @ name_of (fst tf) @ '' - should be in outputs.tf'',
             file_path = fst tf, line_number = 0\<rparr>]
      else [])"
  by (simp add: emitted_def output_file_step_def append_result_def)

lemma check_output_organization_emitted:
  "emitted (check_output_organization fs) v =
     (if \<not> exists_file fs ''outputs.tf''
      then [\<lparr>check_name = ''Output Organization'', passed = False,
             message = ''outputs.tf not found - outputs may be scattered'',
             file_path = [], line_number = 0\<rparr>]
      else concat (map (\<lambda>tf. emitted (output_file_step tf) v) (tf_files v)))"
  by (simp add: check_output_organization_eq files_loop(2))

lemma check_output_organization_names:
  "r \<in> set (emitted (check_output_organization fs) v) \<Longrightarrow> check_name r = ''Output Organization''"
  by (auto simp: check_output_organization_emitted output_file_step_emitted split: if_splits)

lemma security_line_step_names:
  "r \<in> set (emitted (security_line_step rel content il) v) \<Longrightarrow>
   check_name r = ''Hardcoded Secret'' \<or> check_name r = ''Overly Permissive Security Rule''"
  by (auto simp: emitted_def security_line_step_def append_result_def Let_def split: if_splits)

lemma security_file_step_names:
  "r \<in> set (emitted (security_file_step tf) v) \<Longrightarrow>
   check_name r = ''Hardcoded Secret'' \<or> check_name r = ''Overly Permissive Security Rule''"
  by (auto simp: security_file_step_eq appends_fold(2) dest: security_line_step_names)

lemma security_scan_names:
  "r \<in> set (emitted (\<lambda>v. fold security_file_step (tf_files v) v) v) \<Longrightarrow>
   check_name r = ''Hardcoded Secret'' \<or> check_name r = ''Overly Permissive Security Rule''"
  by (auto simp: files_loop(2) dest: security_file_step_names)

lemma check_security_standards_emitted:
  "emitted_err (check_security_standards fs) v =
     map_sum (\<lambda>e. e) ((@) (emitted (\<lambda>v. fold security_file_step (tf_files v) v) v))
       (emitted_err (case map_of fs ''variables.tf'' of
                       None \<Rightarrow> Inr
                     | Some content \<Rightarrow>
                         fold_err (sensitive_var_step content) (findall sensitive_vars_rx content)) v)"
  unfolding check_security_standards_eq
  by (rule appends_then_err(2)) (simp_all add: files_loop(1) appends_err_fold_err split: option.split)

lemma check_file_structure_list:
  "emitted (check_file_structure fs) v =
     [\<lparr>check_name = ''Required File: README.md'', passed = exists_file fs ''README.md'',
       message = ''Project documentation '' @ (if exists_file fs ''README.md'' then ''found'' else ''MISSING''),
       file_path = [], line_number = 0\<rparr>,
      \<lparr>check_name = ''Required File: variables.tf'', passed = exists_file fs ''variables.tf'',
       message = ''Variable declarations '' @ (if exists_file fs ''variables.tf'' then ''found'' else ''MISSING''),
       file_path = [], line_number = 0\<rparr>,
      \<lparr>check_name = ''Required File: outputs.tf'', passed = exists_file fs ''outputs.tf'',
       message = ''Output definitions '' @ (if exists_file fs ''outputs.tf'' then ''found'' else ''MISSING''),
       file_path = [], line_number = 0\<rparr>,
      \<lparr>check_name = ''Required File: versions.tf'',
       passed = (exists_file fs ''versions.tf'' \<or> exists_file fs ''provider.tf''),
       message = ''Provider versions (or provider.tf) '' @
                 (if exists_file fs ''versions.tf'' \<or> exists_file fs ''provider.tf''
                  then ''found'' else ''MISSING''),
       file_path = [], line_number = 0\<rparr>,
      \<lparr>check_name = ''Required File: .gitignore'', passed = exists_file fs ''.gitignore'',
       message = ''Git exclusions '' @ (if exists_file fs ''.gitignore'' then ''found'' else ''MISSING''),
       file_path = [], line_number = 0\<rparr>,
      \<lparr>check_name = ''Constants File'', passed = exists_file fs ''locals_constants.tf'',
       message = (if exists_file fs ''locals_constants.tf'' then ''locals_constants.tf found''
                  else ''locals_constants.tf MISSING - magic numbers may be present''),
       file_path = [], line_number = 0\<rparr>]"
  by (auto simp: check_file_structure_emitted required_file_step_emitted required_files_def)

subsection \<open>Lemmas: removing a file\<close>

lemma map_of_remove_file:
  "map_of (remove_file n fs) k = (if k = n then None else map_of fs k)"
  by (induction fs) (auto simp: remove_file_def)

lemma exists_file_remove_file:
  "exists_file (remove_file n fs) k = (k \<noteq> n \<and> exists_file fs k)"
  by (simp add: exists_file_def map_of_remove_file)

lemma readme_is_no_tf: "\<not> endswith (name_of ''README.md'') ''.tf''"
  by code_simp

lemma glob_tf_remove_readme: "glob_tf (remove_file ''README.md'' fs) = glob_tf fs"
proof -
  have "(endswith (name_of p) ''.tf'' \<and> p \<noteq> ''README.md'') = endswith (name_of p) ''.tf''" for p
    using readme_is_no_tf by auto
  then show ?thesis
    by (simp add: glob_tf_def remove_file_def split_def conj_commute)
qed

lemma check_magic_numbers_any_tree: "check_magic_numbers fs = check_magic_numbers fs'"
  by (rule ext) (simp add: check_magic_numbers_def)

lemma check_security_standards_same:
  "map_of fs' ''variables.tf'' = map_of fs ''variables.tf'' \<Longrightarrow>
   check_security_standards fs' = check_security_standards fs"
  by (rule ext) (simp add: check_security_standards_def)

lemma check_variable_validation_same:
  "map_of fs' ''variables.tf'' = map_of fs ''variables.tf'' \<Longrightarrow>
   check_variable_validation fs' = check_variable_validation fs"
  by (rule ext) (simp add: check_variable_validation_def)

lemma check_output_organization_same:
  "exists_file fs' ''outputs.tf'' = exists_file fs ''outputs.tf'' \<Longrightarrow>
   check_output_organization fs' = check_output_organization fs"
  by (rule ext) (simp add: check_output_organization_def)

subsection \<open>Lemmas: lists\<close>

lemma concat_map_if: "concat (map (\<lambda>x. if P x then [g x] else []) xs) = map g (filter P xs)"
  by (induction xs) simp_all

subsection \<open>Lemmas: the results of one line\<close>

lemma enumerate_from_lower: "(j, x) \<in> set (enumerate_from n xs) \<Longrightarrow> n \<le> j"
  by (induction xs arbitrary: n) force+

lemma enumerate_from_distinct: "distinct (map fst (enumerate_from n xs))"
proof (induction xs arbitrary: n)
  case Nil
  show ?case by simp
next
  case (Cons x xs)
  have "n \<notin> fst ` set (enumerate_from (n + 1) xs)"
    using enumerate_from_lower [of n _ "n + 1" xs] by force
  with Cons show ?case by simp
qed

lemma filter_concat_map_unique:
  assumes "distinct (map k xs)" and "x \<in> set xs"
    and "\<And>y. y \<in> set xs \<Longrightarrow> k y \<noteq> k x \<Longrightarrow> filter P (g y) = []"
  shows "filter P (concat (map g xs)) = filter P (g x)"
  using assms
proof (induction xs)
  case Nil
  then show ?case by simp
next
  case (Cons a xs)
  show ?case
  proof (cases "a = x")
    case True
    have "filter P (g y) = []" if "y \<in> set xs" for y
    proof -
      from Cons.prems(1) have "k a \<notin> k ` set xs" by simp
      with True that have "k y \<noteq> k x" by (metis imageI)
      then show ?thesis using Cons.prems(3) that by simp
    qed
    then have "filter P (concat (map g xs)) = []"
      by (simp add: filter_empty_conv)
    then show ?thesis using True by simp
  next
    case False
    then have x: "x \<in> set xs" using Cons.prems(2) by simp
    from Cons.prems(1) have "k a \<notin> k ` set xs" by simp
    with x have "k a \<noteq> k x" by (metis imageI)
    then have "filter P (g a) = []" using Cons.prems(3) by simp
    moreover have "filter P (concat (map g xs)) = filter P (g x)"
      using Cons.IH Cons.prems x by simp
    ultimately show ?thesis by simp
  qed
qed

lemma magic_line_step_list:
  "emitted (magic_line_step rel (i, line)) v =
     (if startswith (strip line) ''#'' \<or> str_in ''local.'' line then []
      else map (\<lambda>dm. \<lparr>check_name = ''Magic Number'', passed = False,
                       message = fst dm @ '' hardcoded: '' @ group0 (snd dm) @
                                 '' - Should be in locals_constants.tf'',
                       file_path = rel, line_number = i\<rparr>)
             (magic_matches line))"
  by (simp add: magic_line_step_emitted magic_pattern_step_emitted magic_match_step_emitted
      magic_matches_def map_concat comp_def)

lemma magic_line_step_where:
  "r \<in> set (emitted (magic_line_step rel il) v) \<Longrightarrow> file_path r = rel \<and> line_number r = fst il"
  by (cases il) (auto simp: magic_line_step_list split: if_splits)

lemma magic_file_step_where:
  "r \<in> set (emitted (magic_file_step tf) v) \<Longrightarrow> file_path r = fst tf"
  by (auto simp: magic_file_step_emitted split: if_splits dest: magic_line_step_where)

subsection \<open>The matcher on small texts\<close>

text \<open>
  What \<^verbatim>\<open>re\<close> returns on a few short texts, for the constructs the patterns rely on:
  the word boundary, the order of the matches, the lazy quantifier that stops at the
  first closing brace, case folding, the start of a line, and backtracking out of a
  greedy class.
\<close>

lemma port_matches:
  "map group0 (finditer (fst (magic_patterns ! 0)) ''port = 80, export = 3, port=22'') =
     [''port = 80'', ''port=22'']"
  by code_simp

lemma zone_matches:
  "map group0 (finditer (fst (magic_patterns ! 1)) ''zone = \"1\" zones = \"2\" zone=\"x\"'') =
     [''zone = \"1\"'']"
  by code_simp

lemma variable_names_found:
  "findall var_pattern ''variable \"a\" variable   \"b_c\"'' = [''a'', ''b_c'']"
  by code_simp

lemma block_ends_at_first_brace:
  "var_block ''variable \"x\" { a = {} }'' ''x'' = Some ''variable \"x\" { a = {}''"
  by code_simp

lemma sensitive_names_any_case:
  "findall sensitive_vars_rx ''VARIABLE \"Api_KEY\" {}'' = [''Api_KEY'']"
  "findall sensitive_vars_rx ''variable \"key_of_key\" {}'' = [''key_of_key'']"
  by code_simp+

lemma secret_assignments:
  "search secret_rx ''Admin_Password = \"${var.p}\"'' = None"
  "map_option group0 (search secret_rx ''Admin_Password = \"hunter2\"'') = Some ''Password = \"h''"
  by code_simp+

lemma output_at_line_start:
  "map_option group0 (search output_rx ''locals {}\<newline>  output \"x\"'') = Some ''  output \"''"
  "search output_rx ''x output \"x\"'' = None"
  by code_simp+

subsection \<open>Runs on the concrete trees\<close>

lemma compliant_tree_run:
  "run_all_checks compliant_tree (init ''.'' False) = Inr (True, compliant_run)"
  by code_simp

lemma compliant_tree_run_without_readme:
  "run_all_checks (remove_file ''README.md'' compliant_tree) (init ''.'' False) =
     Inr (False, compliant_run_without_readme)"
  by code_simp

section \<open>The claims\<close>

text \<open>
  C3. Validating a root path that exists but holds no file with the configuration-file
  suffix gives exactly one result in the whole run, a failing "File Discovery" result;
  no check runs, the run is reported as failed, and the process exits with code 1,
  with or without a report path.
\<close>

theorem empty_tree_single_discovery_failure:
  assumes "glob_tf fs = []"
  shows "run_all_checks fs (init p s) =
           Inr (False, \<lparr>path = p, strict = s,
                        results = [\<lparr>check_name = ''File Discovery'', passed = False,
                                    message = ''No Terraform files found in '' @ p,
                                    file_path = [], line_number = 0\<rparr>],
                        tf_files = []\<rparr>)
         \<and> main (Some fs) \<lparr>arg_path = p, arg_strict = s, arg_report = rep\<rparr> = Inr 1"
  using assms
  by (simp add: run_all_checks_empty main_def exit_code_def generate_report_def split: option.split)

theorem empty_tree_single_discovery_failure_witness:
  "glob_tf [(''README.md'', ''notes''), (''docs/main.tf.bak'', ''x'')] = []
   \<and> run_all_checks [(''README.md'', ''notes''), (''docs/main.tf.bak'', ''x'')] (init ''infra'' True) =
       Inr (False, \<lparr>path = ''infra'', strict = True,
                    results = [\<lparr>check_name = ''File Discovery'', passed = False,
                                message = ''No Terraform files found in infra'',
                                file_path = [], line_number = 0\<rparr>],
                    tf_files = []\<rparr>)
   \<and> main (Some [(''README.md'', ''notes''), (''docs/main.tf.bak'', ''x'')])
         \<lparr>arg_path = ''infra'', arg_strict = True, arg_report = Some ''report.md''\<rparr> = Inr 1"
proof -
  have h: "glob_tf [(''README.md'', ''notes''), (''docs/main.tf.bak'', ''x'')] = []"
    by code_simp
  show ?thesis
    using h empty_tree_single_discovery_failure [OF h, of "''infra''" True "Some ''report.md''"]
    by simp
qed

text \<open>
  C8. For every root path and tree, a run with the strict-mode flag on gives the same
  outcome as a run with the flag off: the same error or the same pass/fail verdict,
  the same ordered results and the same summary counts, and the same exit code.
\<close>

theorem strict_flag_changes_nothing:
  "map_sum (\<lambda>e. e) (\<lambda>(ok, v). (ok, results v, summary v)) (run_all_checks fs (init p True)) =
   map_sum (\<lambda>e. e) (\<lambda>(ok, v). (ok, results v, summary v)) (run_all_checks fs (init p False))
   \<and> main t (a\<lparr>arg_strict := True\<rparr>) = main t (a\<lparr>arg_strict := False\<rparr>)"
proof
  show "map_sum (\<lambda>e. e) (\<lambda>(ok, v). (ok, results v, summary v)) (run_all_checks fs (init p True)) =
        map_sum (\<lambda>e. e) (\<lambda>(ok, v). (ok, results v, summary v)) (run_all_checks fs (init p False))"
    by (simp add: run_all_checks_strict sum.map_comp comp_def split_def)
  show "main t (a\<lparr>arg_strict := True\<rparr>) = main t (a\<lparr>arg_strict := False\<rparr>)"
    by (simp add: main_def run_all_checks_strict [of _ "arg_path a"]
        split: option.split sum.split error.split)
qed

theorem strict_flag_changes_nothing_witness:
  "map_sum (\<lambda>e. e) (\<lambda>(ok, v). (ok, results v, summary v)) (run_all_checks bare_tree (init ''.'' True)) =
   map_sum (\<lambda>e. e) (\<lambda>(ok, v). (ok, results v, summary v)) (run_all_checks bare_tree (init ''.'' False))
   \<and> main (Some bare_tree) \<lparr>arg_path = ''.'', arg_strict = True, arg_report = None\<rparr> =
       main (Some bare_tree) \<lparr>arg_path = ''.'', arg_strict = False, arg_report = None\<rparr>"
  using strict_flag_changes_nothing
    [of bare_tree "''.''" "Some bare_tree" "\<lparr>arg_path = ''.'', arg_strict = False, arg_report = None\<rparr>"]
  by simp

text \<open>
  C10. When \<^verbatim>\<open>run_all_checks\<close> has completed, the result list is not empty: it is the
  single File Discovery failure, or it starts with the six file-structure results.
  So the pass rate of \<^verbatim>\<open>generate_report\<close> never divides by zero.
\<close>

theorem results_nonempty_after_run:
  assumes "run_all_checks fs (init p s) = Inr (ok, v)"
  shows "results v \<noteq> []
         \<and> (results v = [\<lparr>check_name = ''File Discovery'', passed = False,
                           message = ''No Terraform files found in '' @ p,
                           file_path = [], line_number = 0\<rparr>]
            \<or> (6 \<le> length (results v)
                \<and> take 6 (results v) = results (check_file_structure fs (init p s))))
         \<and> (\<exists>r. generate_report v = Inr r)"
proof (cases "glob_tf fs = []")
  case True
  with assms have "results v = [\<lparr>check_name = ''File Discovery'', passed = False,
                           message = ''No Terraform files found in '' @ p,
                           file_path = [], line_number = 0\<rparr>]"
    by (auto simp: run_all_checks_empty)
  then show ?thesis by (simp add: generate_report_nonempty)
next
  case False
  let ?A = "emitted (check_file_structure fs) (discovered p s fs)"
  from assms obtain R where R: "results v = ?A @ R"
    by (auto simp: run_all_checks_found [OF False] collected_def split: sum.splits)
  have len: "length ?A = 6" by (rule check_file_structure_length)
  have "results (check_file_structure fs (init p s)) = emitted (check_file_structure fs) (init p s)"
    by (simp add: appendsD [OF check_file_structure_appends] init_def)
  also have "\<dots> = ?A" by (rule check_file_structure_any_state)
  finally have "take 6 (results v) = results (check_file_structure fs (init p s))"
    using R len by simp
  moreover have "6 \<le> length (results v)" using R len by simp
  moreover have "results v \<noteq> []" using R len by auto
  ultimately show ?thesis by (simp add: generate_report_nonempty)
qed

theorem results_nonempty_after_run_witness:
  "run_all_checks bare_tree (init ''.'' False) = Inr (False, bare_tree_run)
   \<and> results bare_tree_run \<noteq> []
   \<and> 6 \<le> length (results bare_tree_run)
   \<and> take 6 (results bare_tree_run) = results (check_file_structure bare_tree (init ''.'' False))
   \<and> (\<exists>r. generate_report bare_tree_run = Inr r)"
proof -
  have h: "run_all_checks bare_tree (init ''.'' False) = Inr (False, bare_tree_run)"
    by code_simp
  have n: "results bare_tree_run \<noteq> [\<lparr>check_name = ''File Discovery'', passed = False,
             message = ''No Terraform files found in '' @ ''.'', file_path = [], line_number = 0\<rparr>]"
    by (simp add: bare_tree_run_def)
  show ?thesis
    using h n results_nonempty_after_run [OF h] by simp
qed

text \<open>
  C9. When \<^verbatim>\<open>variables.tf\<close> does not exist under the root path but configuration files
  do, the Variable Validation rule leaves the state as it is, and the security check
  does its line scan of the discovered files and nothing else: the Sensitive Variable
  part appends nothing. The run completes with no "Variable Validation" and no
  "Sensitive Variable" result, and the missing file is reported once, by the failing
  "Required File: variables.tf" result.
\<close>

theorem missing_variables_file_skipped:
  assumes "map_of fs ''variables.tf'' = None" and "glob_tf fs \<noteq> []"
  shows "check_variable_validation fs w = Inr w
         \<and> check_security_standards fs w = Inr (fold security_file_step (tf_files w) w)
         \<and> (\<exists>ok v. run_all_checks fs (init p s) = Inr (ok, v)
               \<and> (\<forall>r\<in>set (results v). check_name r \<noteq> ''Variable Validation''
                                          \<and> check_name r \<noteq> ''Sensitive Variable'')
               \<and> filter (\<lambda>r. check_name r = ''Required File: variables.tf'') (results v) =
                   [\<lparr>check_name = ''Required File: variables.tf'', passed = False,
                     message = ''Variable declarations MISSING'',
                     file_path = [], line_number = 0\<rparr>])"
proof (intro conjI)
  show "check_variable_validation fs w = Inr w"
    using assms(1) by (simp add: check_variable_validation_def)
next
  show "check_security_standards fs w = Inr (fold security_file_step (tf_files w) w)"
    using assms(1) by (simp add: check_security_standards_def)
next
  let ?d = "discovered p s fs"
  let ?S = "emitted (\<lambda>v. fold security_file_step (tf_files v) v) ?d"
  let ?R = "collected fs ?d ?S []"
  have sec: "emitted_err (check_security_standards fs) ?d = Inr ?S"
    using assms(1) by (simp add: check_security_standards_emitted)
  have val: "emitted_err (check_variable_validation fs) ?d = Inr []"
    using assms(1) by (simp add: check_variable_validation_eq)
  have run: "run_all_checks fs (init p s) = Inr (list_all passed ?R, ?d\<lparr>results := ?R\<rparr>)"
    by (simp add: run_all_checks_found [OF assms(2)] sec val)
  have missing: "\<not> exists_file fs ''variables.tf''"
    using assms(1) by (simp add: exists_file_def)
  have names: "check_name r \<noteq> ''Variable Validation'' \<and> check_name r \<noteq> ''Sensitive Variable''"
    if "r \<in> set ?R" for r
    using that
    by (auto simp: collected_def check_file_structure_list
        dest: check_magic_numbers_names check_string_booleans_names check_naming_conventions_names
          check_documentation_names security_scan_names check_output_organization_names)
  have others: "filter (\<lambda>r. check_name r = ''Required File: variables.tf'') X = []"
    if "\<And>r. r \<in> set X \<Longrightarrow> check_name r \<noteq> ''Required File: variables.tf''" for X
    using that by (simp add: filter_empty_conv)
  have "filter (\<lambda>r. check_name r = ''Required File: variables.tf'') ?R =
          [\<lparr>check_name = ''Required File: variables.tf'', passed = False,
            message = ''Variable declarations MISSING'', file_path = [], line_number = 0\<rparr>]"
    unfolding collected_def filter_append
    by (simp add: check_file_structure_list missing)
      (auto intro!: others
        dest: check_magic_numbers_names check_string_booleans_names check_naming_conventions_names
          check_documentation_names security_scan_names check_output_organization_names)
  with run names
  show "\<exists>ok v. run_all_checks fs (init p s) = Inr (ok, v)
               \<and> (\<forall>r\<in>set (results v). check_name r \<noteq> ''Variable Validation''
                                          \<and> check_name r \<noteq> ''Sensitive Variable'')
               \<and> filter (\<lambda>r. check_name r = ''Required File: variables.tf'') (results v) =
                   [\<lparr>check_name = ''Required File: variables.tf'', passed = False,
                     message = ''Variable declarations MISSING'',
                     file_path = [], line_number = 0\<rparr>]"
    by simp
qed

theorem missing_variables_file_skipped_witness:
  "map_of nested_tree ''variables.tf'' = None \<and> glob_tf nested_tree \<noteq> []
   \<and> check_variable_validation nested_tree (init ''.'' False) = Inr (init ''.'' False)
   \<and> check_security_standards nested_tree (discovered ''.'' False nested_tree) =
       Inr (fold security_file_step (tf_files (discovered ''.'' False nested_tree))
              (discovered ''.'' False nested_tree))
   \<and> (\<exists>ok v. run_all_checks nested_tree (init ''.'' False) = Inr (ok, v)
         \<and> (\<forall>r\<in>set (results v). check_name r \<noteq> ''Variable Validation''
                                    \<and> check_name r \<noteq> ''Sensitive Variable'')
         \<and> filter (\<lambda>r. check_name r = ''Required File: variables.tf'') (results v) =
             [\<lparr>check_name = ''Required File: variables.tf'', passed = False,
               message = ''Variable declarations MISSING'',
               file_path = [], line_number = 0\<rparr>])"
proof -
  have h1: "map_of nested_tree ''variables.tf'' = None"
    by code_simp
  have h2: "glob_tf nested_tree \<noteq> []"
    by code_simp
  note t = missing_variables_file_skipped [OF h1 h2, of "init ''.'' False" "''.''" False]
  have a: "check_variable_validation nested_tree (init ''.'' False) = Inr (init ''.'' False)"
    and b: "\<exists>ok v. run_all_checks nested_tree (init ''.'' False) = Inr (ok, v)
         \<and> (\<forall>r\<in>set (results v). check_name r \<noteq> ''Variable Validation''
                                    \<and> check_name r \<noteq> ''Sensitive Variable'')
         \<and> filter (\<lambda>r. check_name r = ''Required File: variables.tf'') (results v) =
             [\<lparr>check_name = ''Required File: variables.tf'', passed = False,
               message = ''Variable declarations MISSING'',
               file_path = [], line_number = 0\<rparr>]"
    by (rule t [THEN conjunct1], rule t [THEN conjunct2, THEN conjunct2])
  have c: "check_security_standards nested_tree (discovered ''.'' False nested_tree) =
       Inr (fold security_file_step (tf_files (discovered ''.'' False nested_tree))
              (discovered ''.'' False nested_tree))"
    by (rule missing_variables_file_skipped
        [OF h1 h2, of "discovered ''.'' False nested_tree" "''.''" False,
          THEN conjunct2, THEN conjunct1])
  from h1 h2 a c b show ?thesis by (intro conjI)
qed

text \<open>
  C4 (as amended). Removing \<^verbatim>\<open>README.md\<close> from a tree with configuration files turns the
  passing "Required File: README.md" result into a failing one and replaces the four
  results of the documentation rule (the three section results and the "Example
  Configuration" result) by one failing "README.md" result; the run fails, and no other
  result is added, removed or changed. The claim as written (exactly the three section
  results are suppressed and nothing is added) fails on a compliant tree.
\<close>

theorem removing_readme:
  assumes "map_of fs ''README.md'' = Some body" and "glob_tf fs \<noteq> []"
    and "run_all_checks fs (init p s) = Inr (ok, v)"
  shows "\<exists>A D B v'.
           results v =
             \<lparr>check_name = ''Required File: README.md'', passed = True,
              message = ''Project documentation found'', file_path = [], line_number = 0\<rparr>
             # A @ D @ B
         \<and> map check_name D =
             [''README: Prerequisites section'',
              ''README: Quick Start or Getting Started section'',
              ''README: Configuration section'', ''Example Configuration'']
         \<and> run_all_checks (remove_file ''README.md'' fs) (init p s) = Inr (False, v')
         \<and> results v' =
             \<lparr>check_name = ''Required File: README.md'', passed = False,
              message = ''Project documentation MISSING'', file_path = [], line_number = 0\<rparr>
             # A @
             [\<lparr>check_name = ''README.md'', passed = False, message = ''README.md not found'',
               file_path = [], line_number = 0\<rparr>] @ B"
proof -
  let ?fs' = "remove_file ''README.md'' fs"
  let ?d = "discovered p s fs"
  have d: "discovered p s ?fs' = ?d"
    by (simp add: discovered_def glob_tf_remove_readme)
  have glob: "glob_tf ?fs' \<noteq> []"
    using assms(2) by (simp add: glob_tf_remove_readme)
  have vars: "map_of ?fs' ''variables.tf'' = map_of fs ''variables.tf''"
    by (simp add: map_of_remove_file)
  have outs: "exists_file ?fs' ''outputs.tf'' = exists_file fs ''outputs.tf''"
    by (simp add: exists_file_remove_file)
  have sec: "check_security_standards ?fs' = check_security_standards fs"
    by (rule check_security_standards_same [OF vars])
  have val: "check_variable_validation ?fs' = check_variable_validation fs"
    by (rule check_variable_validation_same [OF vars])
  have out: "check_output_organization ?fs' = check_output_organization fs"
    by (rule check_output_organization_same [OF outs])
  have mag: "check_magic_numbers ?fs' = check_magic_numbers fs"
    by (rule check_magic_numbers_any_tree)
  from assms(3) obtain Esec Eval where
    Esec: "emitted_err (check_security_standards fs) ?d = Inr Esec" and
    Eval: "emitted_err (check_variable_validation fs) ?d = Inr Eval" and
    v: "results v = collected fs ?d Esec Eval"
    by (auto simp: run_all_checks_found [OF assms(2)] split: sum.splits)
  let ?v' = "?d\<lparr>results := collected ?fs' ?d Esec Eval\<rparr>"
  let ?A = "tl (emitted (check_file_structure fs) ?d) @ emitted (check_magic_numbers fs) ?d @
            emitted check_string_booleans ?d @ emitted check_naming_conventions ?d"
  let ?D = "emitted (check_documentation fs) ?d"
  let ?B = "Esec @ Eval @ emitted (check_output_organization fs) ?d"
  have readme: "exists_file fs ''README.md''" "\<not> exists_file ?fs' ''README.md''"
    using assms(1) by (simp_all add: exists_file_def map_of_remove_file)
  have tl_same: "tl (emitted (check_file_structure ?fs') ?d) = tl (emitted (check_file_structure fs) ?d)"
    by (simp add: check_file_structure_list exists_file_remove_file)
  have r1: "results v =
             \<lparr>check_name = ''Required File: README.md'', passed = True,
              message = ''Project documentation found'', file_path = [], line_number = 0\<rparr>
             # ?A @ ?D @ ?B"
    by (simp add: v collected_def check_file_structure_list readme)
  have r2: "map check_name ?D =
             [''README: Prerequisites section'',
              ''README: Quick Start or Getting Started section'',
              ''README: Configuration section'', ''Example Configuration'']"
    by (simp add: check_documentation_emitted assms(1) section_step_emitted required_sections_def)
  have r4: "collected ?fs' ?d Esec Eval =
             \<lparr>check_name = ''Required File: README.md'', passed = False,
              message = ''Project documentation MISSING'', file_path = [], line_number = 0\<rparr>
             # ?A @
             [\<lparr>check_name = ''README.md'', passed = False, message = ''README.md not found'',
               file_path = [], line_number = 0\<rparr>] @ ?B"
    using tl_same
    by (simp add: collected_def mag out check_file_structure_list readme
        check_documentation_emitted map_of_remove_file)
  have "\<not> list_all passed (collected ?fs' ?d Esec Eval)"
    by (simp add: r4)
  then have r3: "run_all_checks ?fs' (init p s) = Inr (False, ?v')"
    by (simp add: run_all_checks_found [OF glob] d sec val Esec Eval)
  have r5: "results ?v' =
             \<lparr>check_name = ''Required File: README.md'', passed = False,
              message = ''Project documentation MISSING'', file_path = [], line_number = 0\<rparr>
             # ?A @
             [\<lparr>check_name = ''README.md'', passed = False, message = ''README.md not found'',
               file_path = [], line_number = 0\<rparr>] @ ?B"
    using r4 by simp
  show ?thesis
  proof (intro exI conjI)
    show "results v =
             \<lparr>check_name = ''Required File: README.md'', passed = True,
              message = ''Project documentation found'', file_path = [], line_number = 0\<rparr>
             # ?A @ ?D @ ?B"
      by (rule r1)
    show "map check_name ?D =
             [''README: Prerequisites section'',
              ''README: Quick Start or Getting Started section'',
              ''README: Configuration section'', ''Example Configuration'']"
      by (rule r2)
    show "run_all_checks ?fs' (init p s) = Inr (False, ?v')"
      by (rule r3)
    show "results ?v' =
             \<lparr>check_name = ''Required File: README.md'', passed = False,
              message = ''Project documentation MISSING'', file_path = [], line_number = 0\<rparr>
             # ?A @
             [\<lparr>check_name = ''README.md'', passed = False, message = ''README.md not found'',
               file_path = [], line_number = 0\<rparr>] @ ?B"
      by (rule r5)
  qed
qed

theorem removing_readme_witness:
  "map_of compliant_tree ''README.md'' =
     Some ''# Network\<newline>## Prerequisites\<newline>## Quick Start\<newline>## Configuration\<newline>''
   \<and> glob_tf compliant_tree \<noteq> []
   \<and> run_all_checks compliant_tree (init ''.'' False) = Inr (True, compliant_run)
   \<and> (\<exists>A D B v'.
         results compliant_run =
           \<lparr>check_name = ''Required File: README.md'', passed = True,
            message = ''Project documentation found'', file_path = [], line_number = 0\<rparr>
           # A @ D @ B
       \<and> map check_name D =
           [''README: Prerequisites section'',
            ''README: Quick Start or Getting Started section'',
            ''README: Configuration section'', ''Example Configuration'']
       \<and> run_all_checks (remove_file ''README.md'' compliant_tree) (init ''.'' False) = Inr (False, v')
       \<and> results v' =
           \<lparr>check_name = ''Required File: README.md'', passed = False,
            message = ''Project documentation MISSING'', file_path = [], line_number = 0\<rparr>
           # A @
           [\<lparr>check_name = ''README.md'', passed = False, message = ''README.md not found'',
             file_path = [], line_number = 0\<rparr>] @ B)"
proof -
  have h1: "map_of compliant_tree ''README.md'' =
     Some ''# Network\<newline>## Prerequisites\<newline>## Quick Start\<newline>## Configuration\<newline>''"
    by code_simp
  have h2: "glob_tf compliant_tree \<noteq> []"
    by code_simp
  note h3 = compliant_tree_run
  from h1 h2 h3 removing_readme [OF h1 h2 h3]
  show ?thesis by (intro conjI)
qed

theorem removing_readme_counterexample:
  "run_all_checks compliant_tree (init ''.'' False) = Inr (True, compliant_run)
   \<and> run_all_checks (remove_file ''README.md'' compliant_tree) (init ''.'' False) =
       Inr (False, compliant_run_without_readme)
   \<and> ''Example Configuration'' \<in> set (map check_name (results compliant_run))
   \<and> ''Example Configuration'' \<notin> set (map check_name (results compliant_run_without_readme))
   \<and> ''README.md'' \<notin> set (map check_name (results compliant_run))
   \<and> ''README.md'' \<in> set (map check_name (results compliant_run_without_readme))"
  using compliant_tree_run compliant_tree_run_without_readme
  by (simp add: compliant_run_def compliant_run_without_readme_def)

text \<open>
  C5 (as amended). When the root \<^verbatim>\<open>outputs.tf\<close> exists, the Output Organization rule
  appends one failing result for every discovered file that is not named
  \<^verbatim>\<open>outputs.tf\<close> and in which some line starts, after optional white space, with an
  output declaration; the result carries the relative path of that file. It is one
  result per file, however many declarations the file holds, so a tree with one stray
  declaration yields exactly one such result and a tree with none yields none. The
  claim as written (one result for each stray declaration) fails on a file with two.
\<close>

theorem stray_outputs_flagged_per_file:
  assumes "exists_file fs ''outputs.tf''"
  shows "check_output_organization fs v =
           v\<lparr>results := results v @
              map (\<lambda>tf. \<lparr>check_name = ''Output Organization'', passed = False,
                          message = ''Output found in '' @ name_of (fst tf) @ '' - should be in outputs.tf'',
                          file_path = fst tf, line_number = 0\<rparr>)
                  (filter (\<lambda>tf. name_of (fst tf) \<noteq> ''outputs.tf'' \<and> search output_rx (snd tf) \<noteq> None)
                     (tf_files v))\<rparr>"
proof -
  have "emitted (check_output_organization fs) v =
          map (\<lambda>tf. \<lparr>check_name = ''Output Organization'', passed = False,
                          message = ''Output found in '' @ name_of (fst tf) @ '' - should be in outputs.tf'',
                          file_path = fst tf, line_number = 0\<rparr>)
                  (filter (\<lambda>tf. name_of (fst tf) \<noteq> ''outputs.tf'' \<and> search output_rx (snd tf) \<noteq> None)
                     (tf_files v))"
    using assms
    by (simp add: check_output_organization_emitted output_file_step_emitted concat_map_if)
  then show ?thesis
    using appendsD [OF check_output_organization_appends, of fs v] by simp
qed

theorem stray_outputs_flagged_per_file_witness:
  "exists_file (outputs_tree one_output_tf) ''outputs.tf''
   \<and> check_output_organization (outputs_tree one_output_tf)
         (discovered ''.'' False (outputs_tree one_output_tf)) =
       (discovered ''.'' False (outputs_tree one_output_tf))
         \<lparr>results := [\<lparr>check_name = ''Output Organization'', passed = False,
                        message = ''Output found in main.tf - should be in outputs.tf'',
                        file_path = ''main.tf'', line_number = 0\<rparr>]\<rparr>
   \<and> check_output_organization (outputs_tree no_output_tf)
         (discovered ''.'' False (outputs_tree no_output_tf)) =
       (discovered ''.'' False (outputs_tree no_output_tf))\<lparr>results := []\<rparr>"
proof -
  have h: "exists_file (outputs_tree one_output_tf) ''outputs.tf''"
    by code_simp
  have f: "filter (\<lambda>tf. name_of (fst tf) \<noteq> ''outputs.tf'' \<and> search output_rx (snd tf) \<noteq> None)
             (tf_files (discovered ''.'' False (outputs_tree one_output_tf))) =
           [(''main.tf'', one_output_tf)]"
    by code_simp
  have n: "name_of ''main.tf'' = ''main.tf''"
    by code_simp
  have h': "exists_file (outputs_tree no_output_tf) ''outputs.tf''"
    by code_simp
  have f': "filter (\<lambda>tf. name_of (fst tf) \<noteq> ''outputs.tf'' \<and> search output_rx (snd tf) \<noteq> None)
             (tf_files (discovered ''.'' False (outputs_tree no_output_tf))) = []"
    by code_simp
  have t: "check_output_organization (outputs_tree one_output_tf)
              (discovered ''.'' False (outputs_tree one_output_tf)) =
            (discovered ''.'' False (outputs_tree one_output_tf))
              \<lparr>results := [] @ map (\<lambda>tf. \<lparr>check_name = ''Output Organization'', passed = False,
                          message = ''Output found in '' @ name_of (fst tf) @ '' - should be in outputs.tf'',
                          file_path = fst tf, line_number = 0\<rparr>) [(''main.tf'', one_output_tf)]\<rparr>"
    using stray_outputs_flagged_per_file [OF h, of "discovered ''.'' False (outputs_tree one_output_tf)"]
    unfolding f by simp
  have t': "check_output_organization (outputs_tree no_output_tf)
              (discovered ''.'' False (outputs_tree no_output_tf)) =
            (discovered ''.'' False (outputs_tree no_output_tf))\<lparr>results := [] @ []\<rparr>"
    using stray_outputs_flagged_per_file [OF h', of "discovered ''.'' False (outputs_tree no_output_tf)"]
    unfolding f' by simp
  show ?thesis
    using h t t' by (simp add: n)
qed

theorem stray_outputs_counterexample:
  "length (finditer output_rx two_outputs_tf) = 2
   \<and> check_output_organization (outputs_tree two_outputs_tf)
         (discovered ''.'' False (outputs_tree two_outputs_tf)) =
       (discovered ''.'' False (outputs_tree two_outputs_tf))
         \<lparr>results := [\<lparr>check_name = ''Output Organization'', passed = False,
                        message = ''Output found in main.tf - should be in outputs.tf'',
                        file_path = ''main.tf'', line_number = 0\<rparr>]\<rparr>"
  by code_simp

text \<open>
  C6. The claim: a variable without a default value and without a validation block
  gets a failing result, and a variable with a default value gets none. The rule takes
  as the block of a variable the text up to the first closing brace after its header.
  In \<open>object_default_tf\<close> the closing brace of the object type comes before the default
  value: the declaration has a default assignment, and yet the rule appends the
  failing result that calls the variable a required one.
\<close>

theorem default_after_nested_brace_flagged:
  "search default_rx object_default_tf \<noteq> None
   \<and> var_block object_default_tf ''owner'' =
       Some ''variable \"owner\" {\<newline>  type    = object({ team = string }''
   \<and> check_variable_validation [(''variables.tf'', object_default_tf)]
         (discovered ''.'' False [(''variables.tf'', object_default_tf)]) =
       Inr ((discovered ''.'' False [(''variables.tf'', object_default_tf)])
              \<lparr>results := [\<lparr>check_name = ''Variable Validation'', passed = False,
                             message = ''Required variable \"owner\" lacks validation block'',
                             file_path = ''variables.tf'', line_number = 0\<rparr>]\<rparr>)"
  by code_simp

text \<open>
  C1. The claim: the result for a variable with a sensitive name passes if and only if
  its declaration block contains a true-valued sensitivity marker. The check takes as
  the block the text up to the first closing brace after the header, and as the marker
  the two words \<^verbatim>\<open>sensitive\<close> and \<^verbatim>\<open>true\<close> anywhere in it. In \<open>guarded_password_tf\<close> the
  marker follows a validation block: the declaration holds \<^verbatim>\<open>sensitive = true\<close>, and the
  result says that the variable is not marked. In \<open>unprotected_key_tf\<close> the variable is
  declared \<^verbatim>\<open>sensitive = false\<close> and is nullable: the declaration holds no true-valued
  marker, and the result says that the variable is marked.
\<close>

theorem sensitive_marker_misjudged:
  "search marker_rx guarded_password_tf \<noteq> None
   \<and> var_block guarded_password_tf ''db_password'' =
       Some (''variable \"db_password\" {\<newline>  type = string\<newline>  validation {\<newline>'' @
             ''    condition     = length(var.db_password) > 7\<newline>'' @
             ''    error_message = \"Too short.\"\<newline>  }'')
   \<and> check_security_standards [(''variables.tf'', guarded_password_tf)]
         (discovered ''.'' False [(''variables.tf'', guarded_password_tf)]) =
       Inr ((discovered ''.'' False [(''variables.tf'', guarded_password_tf)])
              \<lparr>results := [\<lparr>check_name = ''Sensitive Variable'', passed = False,
                             message = ''Variable \"db_password\" NOT marked sensitive'',
                             file_path = [], line_number = 0\<rparr>]\<rparr>)
   \<and> search marker_rx unprotected_key_tf = None
   \<and> check_security_standards [(''variables.tf'', unprotected_key_tf)]
         (discovered ''.'' False [(''variables.tf'', unprotected_key_tf)]) =
       Inr ((discovered ''.'' False [(''variables.tf'', unprotected_key_tf)])
              \<lparr>results := [\<lparr>check_name = ''Sensitive Variable'', passed = True,
                             message = ''Variable \"api_key\" is marked sensitive'',
                             file_path = [], line_number = 0\<rparr>]\<rparr>)"
  by code_simp

text \<open>
  C2. Take a discovered file that is not named \<^verbatim>\<open>locals_constants.tf\<close> (the discovered
  paths being distinct) and a line of it that is not a comment. Among the results that
  the magic-number check appends, those that carry the relative path of the file and
  the 1-based number of the line are: none when the line contains \<^verbatim>\<open>local.\<close>, and
  otherwise one failing "Magic Number" result for every match of every pattern on the
  line. So a line that matches a pattern and contains \<^verbatim>\<open>local.\<close> gets no result, and a
  line without \<^verbatim>\<open>local.\<close> that matches exactly one pattern once gets exactly one.
\<close>

theorem magic_number_line_results:
  assumes "distinct (map fst (tf_files v))"
    and "(rel, content) \<in> set (tf_files v)"
    and "name_of rel \<noteq> ''locals_constants.tf''"
    and "(i, line) \<in> set (enumerate_from 1 (split_lines content))"
    and "\<not> startswith (strip line) ''#''"
  shows "\<exists>E. check_magic_numbers fs v = v\<lparr>results := results v @ E\<rparr>
           \<and> filter (\<lambda>r. file_path r = rel \<and> line_number r = i) E =
               (if str_in ''local.'' line then []
                else map (\<lambda>dm. \<lparr>check_name = ''Magic Number'', passed = False,
                                 message = fst dm @ '' hardcoded: '' @ group0 (snd dm) @
                                           '' - Should be in locals_constants.tf'',
                                 file_path = rel, line_number = i\<rparr>)
                       (magic_matches line))"
proof -
  let ?P = "\<lambda>r. file_path r = rel \<and> line_number r = i"
  let ?E = "emitted (check_magic_numbers fs) v"
  have run: "check_magic_numbers fs v = v\<lparr>results := results v @ ?E\<rparr>"
    by (rule appendsD [OF check_magic_numbers_appends])
  have "filter ?P ?E = filter ?P (emitted (magic_file_step (rel, content)) v)"
    unfolding check_magic_numbers_emitted
  proof (rule filter_concat_map_unique [where k = fst])
    show "distinct (map fst (tf_files v))" by (rule assms(1))
    show "(rel, content) \<in> set (tf_files v)" by (rule assms(2))
    show "filter ?P (emitted (magic_file_step y) v) = []"
      if "y \<in> set (tf_files v)" "fst y \<noteq> fst (rel, content)" for y
      using that(2) by (auto simp: filter_empty_conv dest: magic_file_step_where)
  qed
  also have "\<dots> = filter ?P (concat (map (\<lambda>il. emitted (magic_line_step rel il) v)
                                  (enumerate_from 1 (split_lines content))))"
    using assms(3) by (simp add: magic_file_step_emitted)
  also have "\<dots> = filter ?P (emitted (magic_line_step rel (i, line)) v)"
  proof (rule filter_concat_map_unique [where k = fst])
    show "distinct (map fst (enumerate_from 1 (split_lines content)))"
      by (rule enumerate_from_distinct)
    show "(i, line) \<in> set (enumerate_from 1 (split_lines content))" by (rule assms(4))
    show "filter ?P (emitted (magic_line_step rel y) v) = []"
      if "y \<in> set (enumerate_from 1 (split_lines content))" "fst y \<noteq> fst (i, line)" for y
      using that(2) by (auto simp: filter_empty_conv dest: magic_line_step_where)
  qed
  also have "\<dots> = emitted (magic_line_step rel (i, line)) v"
    by (auto simp: filter_id_conv dest: magic_line_step_where)
  finally have "filter ?P ?E =
               (if str_in ''local.'' line then []
                else map (\<lambda>dm. \<lparr>check_name = ''Magic Number'', passed = False,
                                 message = fst dm @ '' hardcoded: '' @ group0 (snd dm) @
                                           '' - Should be in locals_constants.tf'',
                                 file_path = rel, line_number = i\<rparr>)
                       (magic_matches line))"
    using assms(5) by (simp add: magic_line_step_list)
  with run show ?thesis by blast
qed

theorem magic_number_line_results_witness:
  "distinct (map fst (tf_files (discovered ''.'' False [(''net/main.tf'', ports_tf)])))
   \<and> (''net/main.tf'', ports_tf) \<in> set (tf_files (discovered ''.'' False [(''net/main.tf'', ports_tf)]))
   \<and> name_of ''net/main.tf'' \<noteq> ''locals_constants.tf''
   \<and> (1, ''port = 8080'') \<in> set (enumerate_from 1 (split_lines ports_tf))
   \<and> \<not> startswith (strip ''port = 8080'') ''#''
   \<and> (2, ''port = 443 + local.offset'') \<in> set (enumerate_from 1 (split_lines ports_tf))
   \<and> \<not> startswith (strip ''port = 443 + local.offset'') ''#''
   \<and> length (magic_matches ''port = 8080'') = 1
   \<and> length (magic_matches ''port = 443 + local.offset'') = 1
   \<and> (\<exists>E. check_magic_numbers [(''net/main.tf'', ports_tf)]
              (discovered ''.'' False [(''net/main.tf'', ports_tf)]) =
            (discovered ''.'' False [(''net/main.tf'', ports_tf)])\<lparr>results := E\<rparr>
          \<and> filter (\<lambda>r. file_path r = ''net/main.tf'' \<and> line_number r = 1) E =
              [\<lparr>check_name = ''Magic Number'', passed = False,
                message = ''Port number hardcoded: port = 8080 - Should be in locals_constants.tf'',
                file_path = ''net/main.tf'', line_number = 1\<rparr>]
          \<and> filter (\<lambda>r. file_path r = ''net/main.tf'' \<and> line_number r = 2) E = [])"
proof -
  let ?T = "[(''net/main.tf'', ports_tf)]"
  let ?D = "discovered ''.'' False ?T"
  have h1: "distinct (map fst (tf_files ?D))"
    by code_simp
  have h2: "(''net/main.tf'', ports_tf) \<in> set (tf_files ?D)"
    by code_simp
  have h3: "name_of ''net/main.tf'' \<noteq> ''locals_constants.tf''"
    by code_simp
  have lines: "enumerate_from 1 (split_lines ports_tf) =
                 [(1, ''port = 8080''), (2, ''port = 443 + local.offset''), (3, [])]"
    by code_simp
  have h4: "(1, ''port = 8080'') \<in> set (enumerate_from 1 (split_lines ports_tf))"
    and h6: "(2, ''port = 443 + local.offset'') \<in> set (enumerate_from 1 (split_lines ports_tf))"
    by (simp_all add: lines)
  have h5: "\<not> startswith (strip ''port = 8080'') ''#''"
    and h7: "\<not> startswith (strip ''port = 443 + local.offset'') ''#''"
    by code_simp+
  have m1: "magic_matches ''port = 8080'' =
              [(''Port number'', \<lparr>group0 = ''port = 8080'', group1 = Some ''8080''\<rparr>)]"
    and m2: "magic_matches ''port = 443 + local.offset'' =
              [(''Port number'', \<lparr>group0 = ''port = 443'', group1 = Some ''443''\<rparr>)]"
    by code_simp+
  have l1: "\<not> str_in ''local.'' ''port = 8080''"
    and l2: "str_in ''local.'' ''port = 443 + local.offset''"
    by code_simp+
  from magic_number_line_results [OF h1 h2 h3 h4 h5, of ?T]
  obtain E where E: "check_magic_numbers ?T ?D = ?D\<lparr>results := results ?D @ E\<rparr>"
    and f1: "filter (\<lambda>r. file_path r = ''net/main.tf'' \<and> line_number r = 1) E =
               [\<lparr>check_name = ''Magic Number'', passed = False,
                message = ''Port number hardcoded: port = 8080 - Should be in locals_constants.tf'',
                file_path = ''net/main.tf'', line_number = 1\<rparr>]"
    unfolding m1 using l1 by auto
  from magic_number_line_results [OF h1 h2 h3 h6 h7, of ?T]
  obtain E' where E': "check_magic_numbers ?T ?D = ?D\<lparr>results := results ?D @ E'\<rparr>"
    and f2: "filter (\<lambda>r. file_path r = ''net/main.tf'' \<and> line_number r = 2) E' = []"
    using l2 by auto
  have "?D\<lparr>results := results ?D @ E\<rparr> = ?D\<lparr>results := results ?D @ E'\<rparr>"
    using E E' by simp
  then have "results (?D\<lparr>results := results ?D @ E\<rparr>) = results (?D\<lparr>results := results ?D @ E'\<rparr>)"
    by (rule arg_cong)
  then have same: "E' = E" by simp
  have run: "check_magic_numbers ?T ?D = ?D\<lparr>results := E\<rparr>"
    using E by simp
  have ex: "\<exists>E. check_magic_numbers ?T ?D = ?D\<lparr>results := E\<rparr>
          \<and> filter (\<lambda>r. file_path r = ''net/main.tf'' \<and> line_number r = 1) E =
              [\<lparr>check_name = ''Magic Number'', passed = False,
                message = ''Port number hardcoded: port = 8080 - Should be in locals_constants.tf'',
                file_path = ''net/main.tf'', line_number = 1\<rparr>]
          \<and> filter (\<lambda>r. file_path r = ''net/main.tf'' \<and> line_number r = 2) E = []"
    using run f1 f2 unfolding same by blast
  have n1: "length (magic_matches ''port = 8080'') = 1"
    and n2: "length (magic_matches ''port = 443 + local.offset'') = 1"
    by (simp_all add: m1 m2)
  from h1 h2 h3 h4 h5 h6 h7 n1 n2 ex show ?thesis by (intro conjI)
qed

text \<open>
  C7. The claim: a wildcard source line is flagged only when the 200 characters right
  before that line contain "allow" in any case. The code takes the window before the
  first occurrence of the text of the line in the file. In \<open>nsg_tf\<close> the wildcard line of
  the deny rule (line 15) has the same text as the one of the allow rule (line 5): the
  200 characters before line 15 do not contain "allow", and yet line 15 is flagged,
  next to line 5.
\<close>

theorem wildcard_window_of_first_occurrence:
  "split_lines nsg_tf ! 14 = ''    source_address_prefix      = \"*\"''
   \<and> \<not> str_in ''allow'' (lower (preceding nsg_tf (line_start nsg_tf 15) 200))
   \<and> check_security_standards [(''main.tf'', nsg_tf)]
         (discovered ''.'' False [(''main.tf'', nsg_tf)]) =
       Inr ((discovered ''.'' False [(''main.tf'', nsg_tf)])
              \<lparr>results :=
                 [\<lparr>check_name = ''Overly Permissive Security Rule'', passed = False,
                   message = ''Security rule allows traffic from anywhere (*) - Use specific CIDR blocks'',
                   file_path = ''main.tf'', line_number = 5\<rparr>,
                  \<lparr>check_name = ''Overly Permissive Security Rule'', passed = False,
                   message = ''Security rule allows traffic from anywhere (*) - Use specific CIDR blocks'',
                   file_path = ''main.tf'', line_number = 15\<rparr>]\<rparr>)"
  by code_simp

end
